theory Spec2Isabelle
  imports Main "HOL-Library.Word"
begin

unbundle bit_operations_syntax

section \<open>The Python side: objects, exceptions, outcomes\<close>

text \<open>
  The extension module \<^verbatim>\<open>src/extension/maxminddb.c\<close> bridges libmaxminddb (the engine)
  and CPython. A C function of the module either returns an object, or returns
  \<^verbatim>\<open>NULL\<close> / \<^verbatim>\<open>-1\<close> with a Python exception set, or runs into behaviour that C leaves
  undefined (a read through a null or invalid pointer). The three cases are the three
  constructors of \<open>outcome\<close>. \<open>MaxMindDB_error\<close> is the module's
  \<^verbatim>\<open>InvalidDatabaseError\<close> (the specification's CorruptDatabase); the other exceptions
  are CPython's built-in ones.
\<close>

type_synonym byte = "8 word"

type_synonym unicode = "nat list"

datatype exception =
    MaxMindDB_error string
  | PyExc_ValueError string
  | PyExc_TypeError string
  | PyExc_RuntimeError string
  | PyExc_IOError string
  | PyExc_UnicodeDecodeError

datatype fault = Null_dereference | Wrong_union_member | Uninitialised_read

datatype 'a outcome = Return 'a | Raise exception | Fault fault

text \<open>
  A C \<^verbatim>\<open>double\<close> is kept as its bit pattern; \<^verbatim>\<open>PyFloat_FromDouble(float_value)\<close> widens
  a \<^verbatim>\<open>float\<close>, which is recorded by the constructor instead of being computed.
\<close>

datatype c_double = Double_bits "64 word" | Widened_float "32 word"

text \<open>
  The values handed back to Python. A \<^verbatim>\<open>dict\<close> keeps insertion order, so it is an
  association list; a \<^verbatim>\<open>str\<close> is its list of code points.
\<close>

datatype PyObject =
    PyDict "(unicode \<times> PyObject) list"
  | PyList "PyObject list"
  | PyUnicode unicode
  | PyByteArray "byte list"
  | PyFloat c_double
  | PyLong int
  | PyBool bool
  | Py_None
  | PyTuple "PyObject list"

text \<open>
  \<^verbatim>\<open>PyDict_SetItem\<close>: a key already present keeps its position and takes the new value;
  a new key goes to the end.
\<close>

fun PyDict_SetItem :: "(unicode \<times> PyObject) list \<Rightarrow> unicode \<Rightarrow> PyObject \<Rightarrow> (unicode \<times> PyObject) list" where
  "PyDict_SetItem [] k v = [(k, v)]"
| "PyDict_SetItem ((k', v') # d) k v =
     (if k' = k then (k, v) # d else (k', v') # PyDict_SetItem d k v)"

subsection \<open>\<^verbatim>\<open>PyUnicode_FromStringAndSize\<close>: strict UTF-8 decoding\<close>

text \<open>
  CPython decodes the \<^verbatim>\<open>size\<close> bytes at the pointer as UTF-8 and returns \<^verbatim>\<open>NULL\<close> with a
  \<^verbatim>\<open>UnicodeDecodeError\<close> when they are not well-formed (overlong forms, surrogates
  and code points above \<^verbatim>\<open>0x10FFFF\<close> included). \<open>utf8_lead\<close> gives, for a lead byte, the
  number of continuation bytes, the bits of the lead byte that belong to the code
  point, and the range allowed for the first continuation byte.
\<close>

definition utf8_lead :: "byte \<Rightarrow> (nat \<times> byte \<times> byte \<times> byte) option" where
  "utf8_lead b =
     (if b < 0x80 then Some (0, 0x7F, 0x80, 0xBF)
      else if 0xC2 \<le> b \<and> b \<le> 0xDF then Some (1, 0x1F, 0x80, 0xBF)
      else if b = 0xE0 then Some (2, 0x0F, 0xA0, 0xBF)
      else if b = 0xED then Some (2, 0x0F, 0x80, 0x9F)
      else if 0xE1 \<le> b \<and> b \<le> 0xEF then Some (2, 0x0F, 0x80, 0xBF)
      else if b = 0xF0 then Some (3, 0x07, 0x90, 0xBF)
      else if 0xF1 \<le> b \<and> b \<le> 0xF3 then Some (3, 0x07, 0x80, 0xBF)
      else if b = 0xF4 then Some (3, 0x07, 0x80, 0x8F)
      else None)"

definition utf8_continuation :: "byte \<Rightarrow> bool" where
  "utf8_continuation b \<longleftrightarrow> 0x80 \<le> b \<and> b \<le> 0xBF"

fun utf8_decode :: "byte list \<Rightarrow> unicode option" where
  "utf8_decode [] = Some []"
| "utf8_decode (b # bs) =
     (case utf8_lead b of
        None \<Rightarrow> None
      | Some (n, payload, lo, hi) \<Rightarrow>
          if length bs < n then None
          else if 0 < n \<and> \<not> (lo \<le> hd bs \<and> hd bs \<le> hi) then None
          else if \<not> list_all utf8_continuation (take n bs) then None
          else (case utf8_decode (drop n bs) of
                  None \<Rightarrow> None
                | Some cs \<Rightarrow>
                    Some (foldl (\<lambda>a c. a * 64 + unat (c AND 0x3F)) (unat (b AND payload)) (take n bs) # cs)))"

text \<open>
  The first argument of \<^verbatim>\<open>PyUnicode_FromStringAndSize\<close> is a \<^verbatim>\<open>const char *\<close>: either a
  pointer to string data, given by the bytes that lie there, or bits that are not such
  a pointer (null, or the bits of a number). For size 0 CPython returns the empty
  string without reading anything.
  Reading through bits that are not a pointer to string data has no outcome that the
  module determines (it depends on the memory contents and on the CPython version);
  this is the fault \<open>Wrong_union_member\<close>.
\<close>

datatype char_pointer = String_pointer "byte list" | Not_a_string_pointer

definition PyUnicode_FromStringAndSize :: "char_pointer \<Rightarrow> nat \<Rightarrow> unicode outcome" where
  "PyUnicode_FromStringAndSize u n =
     (if n = 0 then Return []
      else case u of
             Not_a_string_pointer \<Rightarrow> Fault Wrong_union_member
           | String_pointer s \<Rightarrow>
               (case utf8_decode (take n s) of
                  None \<Rightarrow> Raise PyExc_UnicodeDecodeError
                | Some cs \<Rightarrow> Return cs))"

subsection \<open>\<^verbatim>\<open>snprintf\<close> and \<^verbatim>\<open>PyLong_FromString\<close>\<close>

definition hex_digit :: "nat \<Rightarrow> char" where
  "hex_digit d = ''0123456789ABCDEF'' ! d"

text \<open>The conversion \<^verbatim>\<open>"%016" PRIX64\<close>: sixteen upper-case hexadecimal digits, zero padded.\<close>

definition PRIX64_016 :: "64 word \<Rightarrow> string" where
  "PRIX64_016 w = map (\<lambda>i. hex_digit (unat (drop_bit (4 * (15 - i)) w AND 0xF))) [0..<16]"

text \<open>
  \<^verbatim>\<open>PyLong_FromString(str, NULL, 16)\<close> on a string of hexadecimal digits; any other
  character makes it return \<^verbatim>\<open>NULL\<close> with a \<^verbatim>\<open>ValueError\<close>. (CPython also accepts a sign,
  a \<^verbatim>\<open>0x\<close> prefix, underscores and surrounding blanks; the module only ever passes the
  32 digits written by \<^verbatim>\<open>snprintf\<close>.)
\<close>

definition digit_value :: "char \<Rightarrow> nat option" where
  "digit_value c =
     (let n = of_char c :: nat in
      if 48 \<le> n \<and> n \<le> 57 then Some (n - 48)
      else if 65 \<le> n \<and> n \<le> 70 then Some (n - 55)
      else if 97 \<le> n \<and> n \<le> 102 then Some (n - 87)
      else None)"

fun long_from_digits :: "int \<Rightarrow> string \<Rightarrow> int option" where
  "long_from_digits a [] = Some a"
| "long_from_digits a (c # cs) =
     (case digit_value c of
        None \<Rightarrow> None
      | Some d \<Rightarrow> long_from_digits (a * 16 + int d) cs)"

definition PyLong_FromString :: "string \<Rightarrow> int option" where
  "PyLong_FromString s = (if s = [] then None else long_from_digits 0 s)"

section \<open>The engine's tagged nodes\<close>

text \<open>
  libmaxminddb stores a 128-bit value either as \<^verbatim>\<open>unsigned __int128\<close> or, when
  \<^verbatim>\<open>MMDB_UINT128_IS_BYTE_ARRAY\<close> is set, as \<^verbatim>\<open>uint8_t[16]\<close>. The byte list of
  \<open>Uint128_byte_array\<close> stands for the C array and has 16 elements.
\<close>

datatype mmdb_uint128_t = Uint128_scalar "128 word" | Uint128_byte_array "byte list"

definition from_uint128 :: "mmdb_uint128_t \<Rightarrow> PyObject outcome" where
  "from_uint128 u =
     (let (high, low) =
            (case u of
               Uint128_byte_array a \<Rightarrow>
                 (fold (\<lambda>i h. push_bit 8 h OR ucast (a ! i)) [0..<8] (0 :: 64 word),
                  fold (\<lambda>i l. push_bit 8 l OR ucast (a ! i)) [8..<16] (0 :: 64 word))
             | Uint128_scalar x \<Rightarrow> (ucast (drop_bit 64 x), ucast x));
          num_str = PRIX64_016 high @ PRIX64_016 low
      in case PyLong_FromString num_str of
           None \<Rightarrow> Raise (PyExc_ValueError ''invalid literal for int() with base 16'')
         | Some n \<Rightarrow> Return (PyLong n))"


text \<open>
  One node of the engine's entry data list: the type tag together with the member of
  the union that the engine filled in for it, and the field \<^verbatim>\<open>data_size\<close>. For a map
  \<^verbatim>\<open>data_size\<close> is the pair count and for an array the element count; for a string it is
  the number of bytes at the pointer, which is the length of the list here; for the
  other nodes it is the last argument of the constructor. \<open>MMDB_DATA_TYPE_unhandled\<close>
  carries a type tag that the \<^verbatim>\<open>switch\<close> of \<^verbatim>\<open>from_entry_data_list\<close> has no case for.
\<close>

datatype MMDB_entry_data_s =
    MMDB_DATA_TYPE_MAP "32 word"
  | MMDB_DATA_TYPE_ARRAY "32 word"
  | MMDB_DATA_TYPE_UTF8_STRING "byte list"
  | MMDB_DATA_TYPE_BYTES "byte list"
  | MMDB_DATA_TYPE_DOUBLE "64 word" "32 word"
  | MMDB_DATA_TYPE_FLOAT "32 word" "32 word"
  | MMDB_DATA_TYPE_UINT16 "16 word" "32 word"
  | MMDB_DATA_TYPE_UINT32 "32 word" "32 word"
  | MMDB_DATA_TYPE_BOOLEAN bool "32 word"
  | MMDB_DATA_TYPE_UINT64 "64 word" "32 word"
  | MMDB_DATA_TYPE_UINT128 mmdb_uint128_t "32 word"
  | MMDB_DATA_TYPE_INT32 "32 word" "32 word"
  | MMDB_DATA_TYPE_unhandled "32 word" "32 word"


text \<open>
  The list is singly linked through \<^verbatim>\<open>next\<close>. A pointer into it is the part of the
  list that starts at the node it points to; \<^verbatim>\<open>NULL\<close> is the empty list and
  \<^verbatim>\<open>p->next\<close> is the tail.
\<close>

type_synonym MMDB_entry_data_list_s = "MMDB_entry_data_s list"


text \<open>
  \<^verbatim>\<open>from_map\<close> reads the members \<^verbatim>\<open>utf8_string\<close> and \<^verbatim>\<open>data_size\<close> of a key node
  without looking at its type, so both are given for every node. In the union of
  \<^verbatim>\<open>maxminddb.h\<close> the members \<^verbatim>\<open>utf8_string\<close> and \<^verbatim>\<open>bytes\<close> are both pointers and share
  their storage, so for a bytes node \<^verbatim>\<open>utf8_string\<close> points to its bytes. For every
  other node \<^verbatim>\<open>utf8_string\<close> is not the member that the engine stored, and what is read
  is the bits of another member. \<open>data_size\<close> is the value of the \<^verbatim>\<open>uint32_t\<close> field.
\<close>

fun utf8_string :: "MMDB_entry_data_s \<Rightarrow> char_pointer" where
  "utf8_string (MMDB_DATA_TYPE_UTF8_STRING s) = String_pointer s"
| "utf8_string (MMDB_DATA_TYPE_BYTES s) = String_pointer s"
| "utf8_string _ = Not_a_string_pointer"

fun data_size :: "MMDB_entry_data_s \<Rightarrow> nat" where
  "data_size (MMDB_DATA_TYPE_MAP n) = unat n"
| "data_size (MMDB_DATA_TYPE_ARRAY n) = unat n"
| "data_size (MMDB_DATA_TYPE_UTF8_STRING s) = length s"
| "data_size (MMDB_DATA_TYPE_BYTES s) = length s"
| "data_size (MMDB_DATA_TYPE_DOUBLE _ n) = unat n"
| "data_size (MMDB_DATA_TYPE_FLOAT _ n) = unat n"
| "data_size (MMDB_DATA_TYPE_UINT16 _ n) = unat n"
| "data_size (MMDB_DATA_TYPE_UINT32 _ n) = unat n"
| "data_size (MMDB_DATA_TYPE_BOOLEAN _ n) = unat n"
| "data_size (MMDB_DATA_TYPE_UINT64 _ n) = unat n"
| "data_size (MMDB_DATA_TYPE_UINT128 _ n) = unat n"
| "data_size (MMDB_DATA_TYPE_INT32 _ n) = unat n"
| "data_size (MMDB_DATA_TYPE_unhandled _ n) = unat n"


text \<open>The conversion \<^verbatim>\<open>%d\<close> of \<^verbatim>\<open>PyErr_Format\<close>.\<close>

function dec_digits :: "nat \<Rightarrow> string" where
  "dec_digits n =
     (if n < 10 then [''0123456789'' ! n]
      else dec_digits (n div 10) @ [''0123456789'' ! (n mod 10)])"
  by pat_completeness auto
termination
  by (relation "measure id") auto

declare dec_digits.simps [simp del]

definition format_d :: "int \<Rightarrow> string" where
  "format_d i = (if i < 0 then CHR ''-'' # dec_digits (nat (- i)) else dec_digits (nat i))"


text \<open>
  \<^verbatim>\<open>long\<close> has 64 bits (the module includes the POSIX socket headers; LP64). The
  arguments of \<^verbatim>\<open>PyLong_FromLong\<close> are converted to \<^verbatim>\<open>long\<close> by the caller.
\<close>

definition PyLong_FromLong :: "64 word \<Rightarrow> PyObject" where
  "PyLong_FromLong l = PyLong (sint l)"

definition PyLong_FromUnsignedLongLong :: "64 word \<Rightarrow> PyObject" where
  "PyLong_FromUnsignedLongLong l = PyLong (uint l)"


subsection \<open>The entry decoder\<close>

text \<open>
  \<^verbatim>\<open>from_entry_data_list\<close>, \<^verbatim>\<open>from_map\<close> and \<^verbatim>\<open>from_array\<close> share one cursor
  (\<^verbatim>\<open>MMDB_entry_data_list_s **\<close>): each takes the cursor and returns it with the
  outcome. The arguments of \<open>from_map\<close> and \<open>from_array\<close> are the local variables of
  the C function at the head of its loop: the size read from the container node, the
  counter \<open>i\<close>, the object built so far and the cursor. The loop condition
  \<^verbatim>\<open>i < map_size && entry_data_list\<close> tests the address of the cursor variable, which
  is never null, so only \<open>i < map_size\<close> remains. \<^verbatim>\<open>PyList_New(size)\<close> followed by
  \<^verbatim>\<open>PyList_SetItem(py_obj, i, value)\<close> for \<open>i = 0, 1, \<dots>\<close> is the list of the values set
  so far. Allocation is taken to succeed.
\<close>

function from_entry_data_list :: "MMDB_entry_data_list_s \<Rightarrow> PyObject outcome \<times> MMDB_entry_data_list_s"
  and from_map :: "32 word \<Rightarrow> nat \<Rightarrow> (unicode \<times> PyObject) list \<Rightarrow> MMDB_entry_data_list_s
        \<Rightarrow> PyObject outcome \<times> MMDB_entry_data_list_s"
  and from_array :: "32 word \<Rightarrow> nat \<Rightarrow> PyObject list \<Rightarrow> MMDB_entry_data_list_s
        \<Rightarrow> PyObject outcome \<times> MMDB_entry_data_list_s"
where
  "from_entry_data_list entry_data_list =
     (case entry_data_list of
        [] \<Rightarrow>
          (Raise (MaxMindDB_error
             ''Error while looking up data. Your database may be corrupt or you have found a bug in libmaxminddb.''),
           entry_data_list)
      | entry_data # _ \<Rightarrow>
          (case entry_data of
             MMDB_DATA_TYPE_MAP map_size \<Rightarrow> from_map map_size 0 [] entry_data_list
           | MMDB_DATA_TYPE_ARRAY array_size \<Rightarrow> from_array array_size 0 [] entry_data_list
           | MMDB_DATA_TYPE_UTF8_STRING _ \<Rightarrow>
               (case PyUnicode_FromStringAndSize (utf8_string entry_data) (data_size entry_data) of
                  Return u \<Rightarrow> (Return (PyUnicode u), entry_data_list)
                | Raise e \<Rightarrow> (Raise e, entry_data_list)
                | Fault f \<Rightarrow> (Fault f, entry_data_list))
           | MMDB_DATA_TYPE_BYTES s \<Rightarrow> (Return (PyByteArray s), entry_data_list)
           | MMDB_DATA_TYPE_DOUBLE d _ \<Rightarrow> (Return (PyFloat (Double_bits d)), entry_data_list)
           | MMDB_DATA_TYPE_FLOAT f _ \<Rightarrow> (Return (PyFloat (Widened_float f)), entry_data_list)
           | MMDB_DATA_TYPE_UINT16 n _ \<Rightarrow> (Return (PyLong_FromLong (ucast n)), entry_data_list)
           | MMDB_DATA_TYPE_UINT32 n _ \<Rightarrow> (Return (PyLong_FromLong (ucast n)), entry_data_list)
           | MMDB_DATA_TYPE_BOOLEAN b _ \<Rightarrow> (Return (PyBool b), entry_data_list)
           | MMDB_DATA_TYPE_UINT64 n _ \<Rightarrow> (Return (PyLong_FromUnsignedLongLong n), entry_data_list)
           | MMDB_DATA_TYPE_UINT128 n _ \<Rightarrow> (from_uint128 n, entry_data_list)
           | MMDB_DATA_TYPE_INT32 n _ \<Rightarrow> (Return (PyLong_FromLong (scast n)), entry_data_list)
           | MMDB_DATA_TYPE_unhandled t _ \<Rightarrow>
               (Raise (MaxMindDB_error (''Invalid data type arguments: '' @ format_d (sint t))),
                entry_data_list)))"
| "from_map map_size i py_obj entry_data_list =
     (if i < unat map_size then
        (case entry_data_list of
           [] \<Rightarrow> (Fault Null_dereference, entry_data_list)
         | _ # key_node \<Rightarrow>
             (case key_node of
                [] \<Rightarrow> (Fault Null_dereference, key_node)
              | k # value_node \<Rightarrow>
                  (case PyUnicode_FromStringAndSize (utf8_string k) (data_size k) of
                     Raise e \<Rightarrow> (Raise e, key_node)
                   | Fault f \<Rightarrow> (Fault f, key_node)
                   | Return key \<Rightarrow>
                       (case from_entry_data_list value_node of
                          (Return v, rest) \<Rightarrow>
                            from_map map_size (Suc i) (PyDict_SetItem py_obj key v) rest
                        | (Raise e, rest) \<Rightarrow> (Raise e, rest)
                        | (Fault f, rest) \<Rightarrow> (Fault f, rest)))))
      else (Return (PyDict py_obj), entry_data_list))"
| "from_array array_size i py_obj entry_data_list =
     (if i < unat array_size then
        (case entry_data_list of
           [] \<Rightarrow> (Fault Null_dereference, entry_data_list)
         | _ # value_node \<Rightarrow>
             (case from_entry_data_list value_node of
                (Return v, rest) \<Rightarrow> from_array array_size (Suc i) (py_obj @ [v]) rest
              | (Raise e, rest) \<Rightarrow> (Raise e, rest)
              | (Fault f, rest) \<Rightarrow> (Fault f, rest)))
      else (Return (PyList py_obj), entry_data_list))"
  by pat_completeness auto



text \<open>The cursor never moves backwards, which is what makes the recursion terminate.\<close>

lemma cursor_shrinks_dom:
  "from_entry_data_list_from_map_from_array_dom (Inl c)
     \<Longrightarrow> length (snd (from_entry_data_list c)) \<le> length c"
  "from_entry_data_list_from_map_from_array_dom (Inr (Inl (map_size, i, d, c)))
     \<Longrightarrow> length (snd (from_map map_size i d c)) \<le> length c"
  "from_entry_data_list_from_map_from_array_dom (Inr (Inr (array_size, j, l, c)))
     \<Longrightarrow> length (snd (from_array array_size j l c)) \<le> length c"
proof (induct rule: from_entry_data_list_from_map_from_array.pinduct)
  case (1 entry_data_list)
  then show ?case
    by (simp add: from_entry_data_list.psimps
        split: list.split MMDB_entry_data_s.split outcome.split)
next
  case (2 map_size i py_obj entry_data_list)
  then show ?case
    by (fastforce simp: from_map.psimps split: list.split prod.split outcome.split)
next
  case (3 array_size i py_obj entry_data_list)
  then show ?case
    by (fastforce simp: from_array.psimps split: list.split option.split prod.split outcome.split)
qed

termination from_entry_data_list
proof (relation "measure (\<lambda>x. case x of
          Inl c \<Rightarrow> 2 * length c + 1
        | Inr (Inl (_, _, _, c)) \<Rightarrow> 2 * length c
        | Inr (Inr (_, _, _, c)) \<Rightarrow> 2 * length c)", goal_cases)
  case 1
  show ?case by simp
next
  case 2 then show ?case by simp
next
  case 3 then show ?case by simp
next
  case 4 then show ?case by simp
next
  case (5 map_size i py_obj entry_data_list x21 x22 x21a x22a key x y v)
  then show ?case
    using cursor_shrinks_dom(1) [of x22a] by (simp add: prod_eq_iff)
next
  case 6 then show ?case by simp
next
  case (7 array_size i py_obj entry_data_list x21 x22 x y v)
  then show ?case
    using cursor_shrinks_dom(1) [of x22] by (simp add: prod_eq_iff)
qed

declare from_entry_data_list.simps [simp del] from_map.simps [simp del] from_array.simps [simp del]


section \<open>Addresses\<close>

text \<open>
  \<^verbatim>\<open>struct sockaddr_storage\<close>: the address family and the address bytes copied into
  \<^verbatim>\<open>sin_addr\<close> or \<^verbatim>\<open>sin6_addr\<close>. The initialiser \<^verbatim>\<open>{0}\<close> gives family 0, which is
  \<open>AF_UNSPEC\<close>.
\<close>

datatype sa_family = AF_UNSPEC | AF_INET | AF_INET6

record sockaddr_storage =
  ss_family :: sa_family
  s_addr :: "byte list"

text \<open>
  The argument of a lookup, as far as \<^verbatim>\<open>ip_converter\<close> looks at it: a \<^verbatim>\<open>str\<close>, given by
  what \<^verbatim>\<open>PyUnicode_AsUTF8AndSize\<close> returns for it (\<open>None\<close> when that fails), or another
  object, given by its attribute \<^verbatim>\<open>packed\<close> (\<open>None\<close> when it has none).
\<close>

datatype py_packed = Bytes_object "byte list" | Not_bytes

datatype py_arg = Str_object "byte list option" | Other_object "py_packed option"

text \<open>
  The C library and the parts of libmaxminddb that do not depend on a database:
  \<^verbatim>\<open>getaddrinfo\<close> with \<^verbatim>\<open>AI_NUMERICHOST\<close> (status and first address), the text that
  \<^verbatim>\<open>inet_ntop\<close> writes for an IPv4 or IPv6 address, and \<^verbatim>\<open>MMDB_strerror\<close>.
\<close>

datatype mmdb_status =
    MMDB_SUCCESS
  | MMDB_IPV6_LOOKUP_IN_IPV4_DATABASE_ERROR
  | MMDB_ERROR int

record externals =
  getaddrinfo :: "byte list \<Rightarrow> int \<times> sockaddr_storage option"
  address_text :: "sa_family \<Rightarrow> byte list \<Rightarrow> string"
  MMDB_strerror :: "mmdb_status \<Rightarrow> string"

definition c_string :: "byte list \<Rightarrow> string" where
  "c_string bs = map (\<lambda>b. char_of (unat b)) bs"

definition ip_converter :: "externals \<Rightarrow> py_arg \<Rightarrow> sockaddr_storage outcome" where
  "ip_converter ext obj =
     (case obj of
        Str_object utf8 \<Rightarrow>
          (case utf8 of
             None \<Rightarrow> Raise (PyExc_TypeError ''argument 1 contains an invalid string'')
           | Some ipstr \<Rightarrow>
               if length (takeWhile (\<lambda>b. b \<noteq> 0) ipstr) \<noteq> length ipstr
               then Raise (PyExc_TypeError ''argument 1 contains an embedded null character'')
               else (case getaddrinfo ext ipstr of
                       (gai_status, addresses) \<Rightarrow>
                         if gai_status \<noteq> 0
                         then Raise (PyExc_ValueError
                                (CHR 0x27 # c_string ipstr @ CHR 0x27
                                   # '' does not appear to be an IPv4 or IPv6 address.''))
                         else (case addresses of
                                 None \<Rightarrow> Raise (PyExc_RuntimeError
                                   ''getaddrinfo was successful but failed to set the addrinfo'')
                               | Some ai_addr \<Rightarrow> Return ai_addr)))
      | Other_object packed \<Rightarrow>
          (case packed of
             None \<Rightarrow> Raise (PyExc_TypeError ''argument 1 must be a string or ipaddress object'')
           | Some Not_bytes \<Rightarrow>
               Raise (PyExc_TypeError ''argument 1 must be a string or ipaddress object'')
           | Some (Bytes_object bytes) \<Rightarrow>
               if length bytes = 16
               then Return \<lparr>ss_family = AF_INET6, s_addr = bytes\<rparr>
               else if length bytes = 4
               then Return \<lparr>ss_family = AF_INET, s_addr = bytes\<rparr>
               else Raise (PyExc_ValueError
                      ''argument 1 returned an unexpected packed length for address'')))"

text \<open>
  \<^verbatim>\<open>inet_ntop\<close> fails for a family that is neither \<^verbatim>\<open>AF_INET\<close> nor \<^verbatim>\<open>AF_INET6\<close>, or
  when the buffer is too small; the buffer has \<^verbatim>\<open>INET6_ADDRSTRLEN\<close> bytes, enough for
  both.
\<close>

definition inet_ntop :: "externals \<Rightarrow> sa_family \<Rightarrow> byte list \<Rightarrow> string option" where
  "inet_ntop ext af src = (case af of AF_UNSPEC \<Rightarrow> None | _ \<Rightarrow> Some (address_text ext af src))"

definition format_sockaddr :: "externals \<Rightarrow> sockaddr_storage \<Rightarrow> string outcome" where
  "format_sockaddr ext sa =
     (case inet_ntop ext (ss_family sa) (s_addr sa) of
        Some dst \<Rightarrow> Return dst
      | None \<Rightarrow> Raise (PyExc_RuntimeError ''unable to format IP address''))"

section \<open>The reader\<close>

text \<open>
  An open database, \<^verbatim>\<open>MMDB_s\<close>, is given by what the engine answers for it: the
  \<^verbatim>\<open>ip_version\<close> of its metadata, and the results of \<^verbatim>\<open>MMDB_lookup_sockaddr\<close> (status
  and lookup result), \<^verbatim>\<open>MMDB_get_entry_data_list\<close> (status and list) and
  \<^verbatim>\<open>MMDB_get_metadata_as_entry_data_list\<close>.
\<close>

record MMDB_lookup_result_s =
  found_entry :: bool
  entry :: "32 word"
  netmask :: "16 word"

record MMDB_s =
  ip_version :: "16 word"
  MMDB_lookup_sockaddr :: "sockaddr_storage \<Rightarrow> mmdb_status \<times> MMDB_lookup_result_s"
  MMDB_get_entry_data_list :: "32 word \<Rightarrow> mmdb_status \<times> MMDB_entry_data_list_s"
  MMDB_get_metadata_as_entry_data_list :: "MMDB_entry_data_list_s"

text \<open>\<^verbatim>\<open>Reader_obj\<close>: the field \<open>mmdb\<close> is \<open>None\<close> for the null pointer.\<close>

record Reader_obj =
  mmdb :: "MMDB_s option"
  closed :: bool

text \<open>
  \<^verbatim>\<open>PyArg_ParseTuple(args, "O&", ip_converter, &ip_address_ss)\<close>: exactly one argument,
  handed to the converter.
\<close>

definition PyArg_ParseTuple :: "externals \<Rightarrow> py_arg list \<Rightarrow> sockaddr_storage outcome" where
  "PyArg_ParseTuple ext args =
     (case args of
        [obj] \<Rightarrow> ip_converter ext obj
      | _ \<Rightarrow> Raise (PyExc_TypeError
               (''function takes exactly 1 argument ('' @ dec_digits (length args) @ '' given)'')))"

text \<open>
  \<^verbatim>\<open>get_record\<close> returns the prefix length and stores the record through its third
  argument, or returns \<^verbatim>\<open>-1\<close> with an exception set; the model returns the pair. The
  netmask is a \<^verbatim>\<open>uint16_t\<close>, so the \<^verbatim>\<open>int\<close> arithmetic on it cannot overflow.
\<close>

definition get_record :: "externals \<Rightarrow> Reader_obj \<Rightarrow> py_arg list \<Rightarrow> (PyObject \<times> int) outcome" where
  "get_record ext self args =
     (case mmdb self of
        None \<Rightarrow> Raise (PyExc_ValueError ''Attempt to read from a closed MaxMind DB.'')
      | Some db \<Rightarrow>
          (case PyArg_ParseTuple ext args of
             Raise e \<Rightarrow> Raise e
           | Fault f \<Rightarrow> Fault f
           | Return ip_address \<Rightarrow>
               if ss_family ip_address = AF_UNSPEC
               then Raise (PyExc_ValueError ''Error parsing argument'')
               else
                 (case MMDB_lookup_sockaddr db ip_address of
                    (mmdb_error, result) \<Rightarrow>
                      if mmdb_error \<noteq> MMDB_SUCCESS then
                        (let exception =
                               (if mmdb_error = MMDB_IPV6_LOOKUP_IN_IPV4_DATABASE_ERROR
                                then PyExc_ValueError else MaxMindDB_error)
                         in case format_sockaddr ext ip_address of
                              Return ipstr \<Rightarrow>
                                Raise (exception (''Error looking up '' @ ipstr @ ''. ''
                                                    @ MMDB_strerror ext mmdb_error))
                            | Raise e \<Rightarrow> Raise e
                            | Fault f \<Rightarrow> Fault f)
                      else
                        (let prefix_len = uint (netmask result);
                             prefix_len =
                               (if ss_family ip_address = AF_INET \<and> ip_version db = 6
                                then (if prefix_len \<ge> 96 then prefix_len - 96 else 0)
                                else prefix_len)
                         in if \<not> found_entry result then Return (Py_None, prefix_len)
                            else
                              (case MMDB_get_entry_data_list db (entry result) of
                                 (status, entry_data_list) \<Rightarrow>
                                   if status \<noteq> MMDB_SUCCESS then
                                     (case format_sockaddr ext ip_address of
                                        Return ipstr \<Rightarrow>
                                          Raise (MaxMindDB_error
                                            (''Error while looking up data for '' @ ipstr @ ''. ''
                                               @ MMDB_strerror ext status))
                                      | Raise e \<Rightarrow> Raise e
                                      | Fault f \<Rightarrow> Fault f)
                                   else
                                     (case fst (from_entry_data_list entry_data_list) of
                                        Return record \<Rightarrow> Return (record, prefix_len)
                                      | Raise e \<Rightarrow> Raise e
                                      | Fault f \<Rightarrow> Fault f))))))"

definition Reader_get :: "externals \<Rightarrow> Reader_obj \<Rightarrow> py_arg list \<Rightarrow> PyObject outcome" where
  "Reader_get ext self args =
     (case get_record ext self args of
        Return (record, prefix_len) \<Rightarrow> Return record
      | Raise e \<Rightarrow> Raise e
      | Fault f \<Rightarrow> Fault f)"

definition Reader_get_with_prefix_len :: "externals \<Rightarrow> Reader_obj \<Rightarrow> py_arg list \<Rightarrow> PyObject outcome" where
  "Reader_get_with_prefix_len ext self args =
     (case get_record ext self args of
        Return (record, prefix_len) \<Rightarrow> Return (PyTuple [record, PyLong prefix_len])
      | Raise e \<Rightarrow> Raise e
      | Fault f \<Rightarrow> Fault f)"

subsection \<open>Metadata\<close>

record Metadata_obj =
  binary_format_major_version :: PyObject
  binary_format_minor_version :: PyObject
  build_epoch :: PyObject
  database_type :: PyObject
  description :: PyObject
  md_ip_version :: PyObject
  languages :: PyObject
  node_count :: PyObject
  record_size :: PyObject

definition kwlist :: "string list" where
  "kwlist = [''binary_format_major_version'', ''binary_format_minor_version'', ''build_epoch'',
             ''database_type'', ''description'', ''ip_version'', ''languages'', ''node_count'',
             ''record_size'']"

definition unicode_of :: "string \<Rightarrow> unicode" where
  "unicode_of s = map of_char s"

text \<open>
  \<^verbatim>\<open>Metadata_init\<close> with no positional arguments: \<^verbatim>\<open>PyArg_ParseTupleAndKeywords\<close> with
  the format \<^verbatim>\<open>"|OOOOOOOOO"\<close> rejects a keyword outside \<open>kwlist\<close> and leaves the variable
  of a missing keyword as it was, which is uninitialised; \<^verbatim>\<open>Py_INCREF\<close> then reads
  through it.
\<close>

definition keyword :: "(unicode \<times> PyObject) list \<Rightarrow> string \<Rightarrow> PyObject" where
  "keyword kwds k = (case map_of kwds (unicode_of k) of Some v \<Rightarrow> v | None \<Rightarrow> Py_None)"

definition Metadata_init :: "(unicode \<times> PyObject) list \<Rightarrow> Metadata_obj outcome" where
  "Metadata_init kwds =
     (if \<not> list_all (\<lambda>kv. fst kv \<in> set (map unicode_of kwlist)) kwds
      then Raise (PyExc_TypeError ''invalid keyword argument for this function'')
      else if \<not> list_all (\<lambda>k. map_of kwds (unicode_of k) \<noteq> None) kwlist
      then Fault Uninitialised_read
      else Return \<lparr>binary_format_major_version = keyword kwds ''binary_format_major_version'',
                   binary_format_minor_version = keyword kwds ''binary_format_minor_version'',
                   build_epoch = keyword kwds ''build_epoch'',
                   database_type = keyword kwds ''database_type'',
                   description = keyword kwds ''description'',
                   md_ip_version = keyword kwds ''ip_version'',
                   languages = keyword kwds ''languages'',
                   node_count = keyword kwds ''node_count'',
                   record_size = keyword kwds ''record_size''\<rparr>)"

text \<open>
  \<^verbatim>\<open>PyObject_Call\<close> on \<^verbatim>\<open>Metadata_Type\<close>: \<^verbatim>\<open>PyType_GenericNew\<close> makes an object whose
  fields are null, then \<^verbatim>\<open>Metadata_init\<close> runs. When it fails the new object is released,
  and \<^verbatim>\<open>Metadata_dealloc\<close> applies \<^verbatim>\<open>Py_DECREF\<close> to the fields, which are still null.
\<close>

definition Metadata_new :: "(unicode \<times> PyObject) list \<Rightarrow> Metadata_obj outcome" where
  "Metadata_new kwds =
     (case Metadata_init kwds of
        Return obj \<Rightarrow> Return obj
      | Raise e \<Rightarrow> Fault Null_dereference
      | Fault f \<Rightarrow> Fault f)"

definition Reader_metadata :: "Reader_obj \<Rightarrow> Metadata_obj outcome" where
  "Reader_metadata self =
     (case mmdb self of
        None \<Rightarrow> Raise (PyExc_IOError ''Attempt to read from a closed MaxMind DB.'')
      | Some db \<Rightarrow>
          (case fst (from_entry_data_list (MMDB_get_metadata_as_entry_data_list db)) of
             Return (PyDict metadata_dict) \<Rightarrow> Metadata_new metadata_dict
           | Return _ \<Rightarrow> Raise (MaxMindDB_error ''Error decoding metadata.'')
           | Raise e \<Rightarrow> Raise (MaxMindDB_error ''Error decoding metadata.'')
           | Fault f \<Rightarrow> Fault f))"

subsection \<open>Lifecycle\<close>

text \<open>
  \<^verbatim>\<open>Reader_close\<close> returns the object after the call and the handles it passed to
  \<^verbatim>\<open>MMDB_close\<close> and \<^verbatim>\<open>free\<close> during the call.
\<close>

definition Reader_close :: "Reader_obj \<Rightarrow> Reader_obj \<times> MMDB_s list" where
  "Reader_close self =
     (case mmdb self of
        Some db \<Rightarrow> (self\<lparr>mmdb := None, closed := True\<rparr>, [db])
      | None \<Rightarrow> (self\<lparr>closed := True\<rparr>, []))"

text \<open>\<^verbatim>\<open>Reader__enter__\<close> and \<^verbatim>\<open>Reader__exit__\<close>.\<close>

definition Reader_enter :: "Reader_obj \<Rightarrow> Reader_obj outcome" where
  "Reader_enter self =
     (if closed self then Raise (PyExc_ValueError ''Attempt to reopen a closed MaxMind DB.'')
      else Return self)"

definition Reader_exit :: "Reader_obj \<Rightarrow> Reader_obj \<times> MMDB_s list" where
  "Reader_exit self = Reader_close self"

text \<open>
  \<^verbatim>\<open>Reader_dealloc\<close> closes a reader that is still open; it returns the handles
  released.
\<close>

definition Reader_dealloc :: "Reader_obj \<Rightarrow> MMDB_s list" where
  "Reader_dealloc self = (case mmdb self of Some db \<Rightarrow> snd (Reader_close self) | None \<Rightarrow> [])"

section \<open>Notions used to state the properties\<close>

text \<open>The unsigned number written by a list of bytes, most significant byte first.\<close>

definition big_endian :: "byte list \<Rightarrow> int" where
  "big_endian bs = foldl (\<lambda>a b. a * 256 + uint b) 0 bs"

text \<open>The last \<open>n\<close> hexadecimal digits of a 64-bit value, most significant first.\<close>

definition hex_digits :: "nat \<Rightarrow> 64 word \<Rightarrow> string" where
  "hex_digits n w = map (\<lambda>i. hex_digit (unat (drop_bit (4 * (n - 1 - i)) w AND 0xF))) [0..<n]"


text \<open>
  The prefix length as the specification gives it: for an IPv4 address looked up in a
  database whose declared IP version is 6, the raw netmask reduced by 96, or 0 when it
  is below 96; the raw netmask otherwise.
\<close>

definition spec_prefix_length :: "sa_family \<Rightarrow> 16 word \<Rightarrow> int \<Rightarrow> int" where
  "spec_prefix_length family version raw_netmask =
     (if family = AF_INET \<and> version = 6 then max (raw_netmask - 96) 0 else raw_netmask)"

definition is_Return :: "'a outcome \<Rightarrow> bool" where
  "is_Return r = (case r of Return _ \<Rightarrow> True | _ \<Rightarrow> False)"

subsection \<open>Well-formed node lists\<close>

text \<open>
  The engine flattens a tree of values in pre-order: a map node with its pair count is
  followed by its pairs, each a key node and then the nodes of the value; an array
  node with its element count is followed by the nodes of its elements. \<open>flatten\<close>
  writes the node list of a tree.
\<close>

datatype tree =
    Scalar MMDB_entry_data_s
  | Map_tree "(MMDB_entry_data_s \<times> tree) list"
  | Array_tree "tree list"

fun flatten :: "tree \<Rightarrow> MMDB_entry_data_list_s" where
  "flatten (Scalar e) = [e]"
| "flatten (Map_tree kvs) =
     MMDB_DATA_TYPE_MAP (word_of_nat (length kvs)) # concat (map (\<lambda>kv. fst kv # flatten (snd kv)) kvs)"
| "flatten (Array_tree ts) =
     MMDB_DATA_TYPE_ARRAY (word_of_nat (length ts)) # concat (map flatten ts)"

text \<open>The text of a key node, as \<open>from_map\<close> reads it, when there is one.\<close>

definition key_text :: "MMDB_entry_data_s \<Rightarrow> unicode option" where
  "key_text k =
     (case PyUnicode_FromStringAndSize (utf8_string k) (data_size k) of
        Return key \<Rightarrow> Some key
      | _ \<Rightarrow> None)"

definition key_of :: "MMDB_entry_data_s \<Rightarrow> unicode" where
  "key_of k = (case key_text k of Some key \<Rightarrow> key | None \<Rightarrow> [])"

definition is_container :: "MMDB_entry_data_s \<Rightarrow> bool" where
  "is_container e =
     (case e of MMDB_DATA_TYPE_MAP _ \<Rightarrow> True | MMDB_DATA_TYPE_ARRAY _ \<Rightarrow> True | _ \<Rightarrow> False)"

text \<open>
  A tree is decodable when its counts fit the 32 bits of \<^verbatim>\<open>data_size\<close>, its keys are
  nodes from which \<open>from_map\<close> reads a text (string nodes of either type holding
  well-formed UTF-8; any node whose \<^verbatim>\<open>data_size\<close> is 0), and its leaves are nodes of a
  scalar type that the decoder turns into a value (a handled type tag; well-formed
  UTF-8 in a string).
\<close>

fun decodable :: "tree \<Rightarrow> bool" where
  "decodable (Scalar e) = (\<not> is_container e \<and> is_Return (fst (from_entry_data_list [e])))"
| "decodable (Map_tree kvs) =
     (length kvs < 2 ^ 32 \<and> list_all (\<lambda>kv. key_text (fst kv) \<noteq> None \<and> decodable (snd kv)) kvs)"
| "decodable (Array_tree ts) = (length ts < 2 ^ 32 \<and> list_all decodable ts)"

text \<open>
  The dictionary obtained by inserting pairs one after the other, and the value a
  decodable tree stands for.
\<close>

definition dict_of :: "(unicode \<times> PyObject) list \<Rightarrow> (unicode \<times> PyObject) list" where
  "dict_of kvs = foldl (\<lambda>d kv. PyDict_SetItem d (fst kv) (snd kv)) [] kvs"

fun value_of :: "tree \<Rightarrow> PyObject" where
  "value_of (Scalar e) = (case fst (from_entry_data_list [e]) of Return v \<Rightarrow> v | _ \<Rightarrow> Py_None)"
| "value_of (Map_tree kvs) = PyDict (dict_of (map (\<lambda>kv. (key_of (fst kv), value_of (snd kv))) kvs))"
| "value_of (Array_tree ts) = PyList (map value_of ts)"

text \<open>
  The nodes of the pairs of a map, and the keys and values they decode to, in the order
  of the list.
\<close>

definition pairs :: "(MMDB_entry_data_s \<times> tree) list \<Rightarrow> MMDB_entry_data_list_s" where
  "pairs kvs = concat (map (\<lambda>kv. fst kv # flatten (snd kv)) kvs)"

definition entries :: "(MMDB_entry_data_s \<times> tree) list \<Rightarrow> (unicode \<times> PyObject) list" where
  "entries kvs = map (\<lambda>kv. (key_of (fst kv), value_of (snd kv))) kvs"

text \<open>The elements of a list in the order of their first occurrence.\<close>

fun first_occurrences :: "'a list \<Rightarrow> 'a list" where
  "first_occurrences [] = []"
| "first_occurrences (x # xs) = x # removeAll x (first_occurrences xs)"

subsection \<open>The calls made while decoding\<close>

text \<open>
  A call of the decoder, or the state of one of its loops at the head of an iteration.
  \<open>calls a b\<close> holds when \<open>a\<close> goes on to \<open>b\<close>: \<open>from_entry_data_list\<close> enters the loop
  of \<open>from_map\<close> or \<open>from_array\<close> on a container node; an iteration calls
  \<open>from_entry_data_list\<close> on the node after the key (for a map) or on the next node (for
  an array), and, when that call returned a value, goes on to the next iteration.
\<close>

datatype call =
    Call_from_entry_data_list MMDB_entry_data_list_s
  | Call_from_map "32 word" nat "(unicode \<times> PyObject) list" MMDB_entry_data_list_s
  | Call_from_array "32 word" nat "PyObject list" MMDB_entry_data_list_s

fun outcome_of :: "call \<Rightarrow> PyObject outcome" where
  "outcome_of (Call_from_entry_data_list c) = fst (from_entry_data_list c)"
| "outcome_of (Call_from_map map_size i py_obj c) = fst (from_map map_size i py_obj c)"
| "outcome_of (Call_from_array array_size i py_obj c) = fst (from_array array_size i py_obj c)"

inductive calls :: "call \<Rightarrow> call \<Rightarrow> bool" where
  enter_map:
    "calls (Call_from_entry_data_list (MMDB_DATA_TYPE_MAP map_size # r))
           (Call_from_map map_size 0 [] (MMDB_DATA_TYPE_MAP map_size # r))"
| enter_array:
    "calls (Call_from_entry_data_list (MMDB_DATA_TYPE_ARRAY array_size # r))
           (Call_from_array array_size 0 [] (MMDB_DATA_TYPE_ARRAY array_size # r))"
| map_value:
    "i < unat map_size \<Longrightarrow> key_text k = Some key
     \<Longrightarrow> calls (Call_from_map map_size i py_obj (x # k # value_node))
               (Call_from_entry_data_list value_node)"
| map_next:
    "i < unat map_size \<Longrightarrow> key_text k = Some key
     \<Longrightarrow> from_entry_data_list value_node = (Return v, rest)
     \<Longrightarrow> calls (Call_from_map map_size i py_obj (x # k # value_node))
               (Call_from_map map_size (Suc i) (PyDict_SetItem py_obj key v) rest)"
| array_value:
    "i < unat array_size
     \<Longrightarrow> calls (Call_from_array array_size i py_obj (x # value_node))
               (Call_from_entry_data_list value_node)"
| array_next:
    "i < unat array_size \<Longrightarrow> from_entry_data_list value_node = (Return v, rest)
     \<Longrightarrow> calls (Call_from_array array_size i py_obj (x # value_node))
               (Call_from_array array_size (Suc i) (py_obj @ [v]) rest)"

subsection \<open>Examples\<close>

text \<open>
  A map with the key \<open>a\<close> twice, a node list that ends in a node of a type the decoder
  does not handle, and stand-ins for the C library and for two databases: one indexed
  for IPv6 that holds a record for \<open>1.2.3.0/24\<close>, one for IPv4 only whose search tree
  is damaged.
\<close>

definition example_map :: "(MMDB_entry_data_s \<times> tree) list" where
  "example_map =
     [(MMDB_DATA_TYPE_UTF8_STRING [0x61], Scalar (MMDB_DATA_TYPE_UINT16 1 1)),
      (MMDB_DATA_TYPE_UTF8_STRING [0x62], Scalar (MMDB_DATA_TYPE_UINT16 2 1)),
      (MMDB_DATA_TYPE_UTF8_STRING [0x61], Scalar (MMDB_DATA_TYPE_UINT16 3 1))]"

definition example_nested :: MMDB_entry_data_list_s where
  "example_nested =
     [MMDB_DATA_TYPE_MAP 1, MMDB_DATA_TYPE_UTF8_STRING [0x61], MMDB_DATA_TYPE_ARRAY 2,
      MMDB_DATA_TYPE_UINT16 1 1, MMDB_DATA_TYPE_unhandled 13 0]"

definition dotted_decimal :: "byte list \<Rightarrow> string" where
  "dotted_decimal bs =
     (case bs of
        [a, b, c, d] \<Rightarrow>
          dec_digits (unat a) @ ''.'' @ dec_digits (unat b) @ ''.'' @ dec_digits (unat c)
            @ ''.'' @ dec_digits (unat d)
      | _ \<Rightarrow> [])"

definition example_externals :: externals where
  "example_externals =
     \<lparr>getaddrinfo = (\<lambda>ipstr. (- 2, None)),
      address_text = (\<lambda>af src. if af = AF_INET then dotted_decimal src else ''::1''),
      MMDB_strerror = (\<lambda>status.
        if status = MMDB_IPV6_LOOKUP_IN_IPV4_DATABASE_ERROR
        then ''You attempted to look up an IPv6 address in an IPv4-only database''
        else ''Unknown error code'')\<rparr>"

definition example_db :: MMDB_s where
  "example_db =
     \<lparr>ip_version = 6,
      MMDB_lookup_sockaddr = (\<lambda>a.
        if ss_family a = AF_INET \<and> take 3 (s_addr a) = [1, 2, 3]
        then (MMDB_SUCCESS, \<lparr>found_entry = True, entry = 0, netmask = 120\<rparr>)
        else (MMDB_SUCCESS, \<lparr>found_entry = False, entry = 0, netmask = 80\<rparr>)),
      MMDB_get_entry_data_list = (\<lambda>e. (MMDB_SUCCESS, flatten (Map_tree example_map))),
      MMDB_get_metadata_as_entry_data_list = []\<rparr>"

definition example_db_v4 :: MMDB_s where
  "example_db_v4 =
     \<lparr>ip_version = 4,
      MMDB_lookup_sockaddr = (\<lambda>a.
        if ss_family a = AF_INET6
        then (MMDB_IPV6_LOOKUP_IN_IPV4_DATABASE_ERROR, \<lparr>found_entry = False, entry = 0, netmask = 0\<rparr>)
        else (MMDB_ERROR 2, \<lparr>found_entry = False, entry = 0, netmask = 0\<rparr>)),
      MMDB_get_entry_data_list = (\<lambda>e. (MMDB_SUCCESS, [])),
      MMDB_get_metadata_as_entry_data_list = []\<rparr>"

definition packed :: "byte list \<Rightarrow> py_arg list" where
  "packed bytes = [Other_object (Some (Bytes_object bytes))]"

section \<open>128-bit integers\<close>

lemma digit_value_hex_digit: "d < 16 \<Longrightarrow> digit_value (hex_digit d) = Some d"
proof -
  have "list_all (\<lambda>d. digit_value (hex_digit d) = Some d) [0..<16]"
    by code_simp
  moreover assume "d < 16"
  ultimately show ?thesis by (simp add: list_all_iff)
qed

lemma nibble_nat: "unat (drop_bit k (w :: 64 word) AND 0xF) = (unat w div 2 ^ k) mod 16"
proof -
  have "(0xF :: 64 word) = mask 4" by (simp add: mask_eq_exp_minus_1)
  then have "unat (drop_bit k w AND 0xF) = unat (take_bit 4 (drop_bit k w))"
    by (simp add: take_bit_eq_mask)
  also have "\<dots> = take_bit 4 (drop_bit k (unat w))"
    by (simp add: unsigned_take_bit_eq unat_drop_bit_eq)
  finally show ?thesis by (simp add: take_bit_eq_mod drop_bit_eq_div)
qed

lemma hex_digits_Suc:
  "hex_digits (Suc n) w = hex_digit (unat (drop_bit (4 * n) w AND 0xF)) # hex_digits n w"
  by (simp add: hex_digits_def upt_conv_Cons map_Suc_upt [symmetric] del: upt_Suc)

lemma long_from_hex_digits:
  "long_from_digits a (hex_digits n w) = Some (a * 16 ^ n + int (unat w mod 16 ^ n))"
proof (induction n arbitrary: a)
  case 0
  show ?case by (simp add: hex_digits_def)
next
  case (Suc n)
  define d where "d = unat w div 16 ^ n mod 16"
  have d: "d < 16" by (simp add: d_def)
  have p: "(2::nat) ^ (4 * n) = 16 ^ n" by (simp add: power_mult)
  have m: "unat w mod 16 ^ Suc n = 16 ^ n * d + unat w mod 16 ^ n"
    unfolding d_def using mod_mult2_eq [of "unat w" "16 ^ n" 16] by (simp add: mult.commute)
  have "long_from_digits a (hex_digits (Suc n) w) = long_from_digits (a * 16 + int d) (hex_digits n w)"
    by (simp add: hex_digits_Suc nibble_nat p d_def [symmetric] digit_value_hex_digit [OF d])
  also have "\<dots> = Some ((a * 16 + int d) * 16 ^ n + int (unat w mod 16 ^ n))"
    by (rule Suc.IH)
  also have "(a * 16 + int d) * 16 ^ n + int (unat w mod 16 ^ n) = a * 16 ^ Suc n + int (unat w mod 16 ^ Suc n)"
    unfolding m by (simp add: algebra_simps)
  finally show ?case .
qed

lemma PRIX64_016_hex_digits: "PRIX64_016 w = hex_digits 16 w"
  by (simp add: PRIX64_016_def hex_digits_def)

lemma long_from_digits_append:
  "long_from_digits a (s @ t) = (case long_from_digits a s of None \<Rightarrow> None | Some b \<Rightarrow> long_from_digits b t)"
  by (induction s arbitrary: a) (auto split: option.splits)

lemma long_from_PRIX64: "long_from_digits a (PRIX64_016 w) = Some (a * 2 ^ 64 + uint w)"
proof -
  have "unat w < 2 ^ 64" using unsigned_less [of w, where ?'a = nat] by simp
  then have "unat w mod 16 ^ 16 = unat w" by simp
  then show ?thesis
    by (simp add: PRIX64_016_hex_digits long_from_hex_digits)
qed

lemma PyLong_FromString_halves:
  "PyLong_FromString (PRIX64_016 high @ PRIX64_016 low) = Some (uint high * 2 ^ 64 + uint low)"
proof -
  have "PRIX64_016 high @ PRIX64_016 low \<noteq> []" by (simp add: PRIX64_016_def)
  then show ?thesis
    by (simp add: PyLong_FromString_def long_from_digits_append long_from_PRIX64)
qed

lemma scalar_halves:
  "uint (ucast (drop_bit 64 x) :: 64 word) * 2 ^ 64 + uint (ucast x :: 64 word) = uint (x :: 128 word)"
proof -
  have "uint x < 2 ^ 128" using uint_bounded [of x] by simp
  then have lt: "uint x div 2 ^ 64 < 2 ^ 64" by simp
  have "take_bit 128 (uint x) = uint x"
    using \<open>uint x < 2 ^ 128\<close> by (simp add: take_bit_int_eq_self)
  then have "drop_bit 64 (take_bit LENGTH(128) (uint x)) = uint x div 2 ^ 64"
    by (simp add: drop_bit_eq_div)
  then have "uint (drop_bit 64 x) = uint x div 2 ^ 64"
    by (simp only: unsigned_drop_bit_eq)
  moreover have "0 \<le> uint x div 2 ^ 64" by (simp add: pos_imp_zdiv_nonneg_iff)
  ultimately have a: "uint (ucast (drop_bit 64 x) :: 64 word) = uint x div 2 ^ 64"
    using lt by (simp add: unsigned_ucast_eq take_bit_eq_mod)
  have b: "uint (ucast x :: 64 word) = uint x mod 2 ^ 64"
    by (simp add: unsigned_ucast_eq take_bit_eq_mod)
  show ?thesis unfolding a b by simp
qed

lemma shift_or_byte:
  assumes "uint (h :: 64 word) < 2 ^ 56"
  shows "uint (push_bit 8 h OR ucast (b :: byte)) = uint h * 256 + uint b"
proof -
  have "uint h * 256 < 2 ^ 64" using assms by simp
  moreover have "0 \<le> uint h * 256" by simp
  ultimately have "take_bit 64 (uint h * 256) = uint h * 256"
    by (simp add: take_bit_int_eq_self)
  then have "take_bit LENGTH(64) (push_bit 8 (uint h)) = push_bit 8 (uint h)"
    by (simp add: push_bit_eq_mult)
  then have p: "uint (push_bit 8 h) = push_bit 8 (uint h)"
    by (simp only: unsigned_push_bit_eq)
  have "uint b < 2 ^ 8" using uint_bounded [of b] by simp
  then have u: "uint (ucast b :: 64 word) = uint b"
    by (simp add: unsigned_ucast_eq take_bit_int_eq_self_iff)
  have "push_bit 8 (uint h) + uint b = push_bit 8 (uint h) OR uint b"
    by (rule disjunctive_add) (auto simp: bit_push_bit_iff bit_uint_iff)
  moreover have "uint (push_bit 8 h OR ucast b) = uint (push_bit 8 h) OR uint (ucast b :: 64 word)"
    by (rule unsigned_or_eq)
  ultimately show ?thesis
    by (simp only: p u) (simp add: push_bit_eq_mult)
qed

lemma big_endian_snoc: "big_endian (bs @ [b]) = big_endian bs * 256 + uint b"
  by (simp add: big_endian_def)

lemma big_endian_bounds: "0 \<le> big_endian bs \<and> big_endian bs < 2 ^ (8 * length bs)"
proof (induction bs rule: rev_induct)
  case Nil
  show ?case by (simp add: big_endian_def)
next
  case (snoc b bs)
  have "uint b < 256" using uint_bounded [of b] by simp
  moreover have "big_endian bs + 1 \<le> 2 ^ (8 * length bs)" using snoc by simp
  then have "(big_endian bs + 1) * 256 \<le> 2 ^ (8 * length bs) * 256"
    by (rule mult_right_mono) simp
  moreover have "(2::int) ^ (8 * length (bs @ [b])) = 2 ^ (8 * length bs) * 256"
    by (simp add: power_add)
  moreover have "0 \<le> uint b" by simp
  ultimately show ?case using snoc
    unfolding big_endian_snoc by linarith
qed

lemma fold_bytes_big_endian:
  "n \<le> 8 \<Longrightarrow> k + n \<le> length a \<Longrightarrow>
   uint (fold (\<lambda>i h. push_bit 8 h OR ucast (a ! i)) [k..<k + n] (0 :: 64 word))
     = big_endian (take n (drop k a))"
proof (induction n)
  case 0
  show ?case by (simp add: big_endian_def)
next
  case (Suc n)
  let ?h = "fold (\<lambda>i h. push_bit 8 h OR ucast (a ! i)) [k..<k + n] (0 :: 64 word)"
  have ih: "uint ?h = big_endian (take n (drop k a))" using Suc by simp
  have len: "length (take n (drop k a)) = n" using Suc.prems by simp
  have "big_endian (take n (drop k a)) < 2 ^ (8 * n)"
    using big_endian_bounds [of "take n (drop k a)"] len by simp
  also have "(2::int) ^ (8 * n) \<le> 2 ^ 56"
    using Suc.prems by (intro power_increasing) simp_all
  finally have small: "uint ?h < 2 ^ 56" using ih by simp
  have t: "take (Suc n) (drop k a) = take n (drop k a) @ [a ! (k + n)]"
    using Suc.prems by (simp add: take_Suc_conv_app_nth)
  show ?case
    by (simp add: shift_or_byte [OF small] ih t big_endian_snoc)
qed

lemma big_endian_append:
  "big_endian (xs @ ys) = big_endian xs * 2 ^ (8 * length ys) + big_endian ys"
proof (induction ys rule: rev_induct)
  case Nil
  show ?case by (simp add: big_endian_def)
next
  case (snoc y ys)
  have "big_endian (xs @ ys @ [y]) = big_endian ((xs @ ys) @ [y])" by simp
  also have "\<dots> = big_endian (xs @ ys) * 256 + uint y" by (rule big_endian_snoc)
  finally show ?case
    by (simp add: snoc.IH big_endian_snoc algebra_simps power_add)
qed


text \<open>
  C3. Decoding a UInt128 node is \<open>from_uint128\<close> of its value, which yields
  \<open>high * 2^64 + low\<close>. For the 128-bit scalar this
  is the value of the scalar, with the high half obtained by shifting and the low half
  by truncation. For the array of 16 bytes the high half is the big-endian value of the
  first 8 bytes and the low half that of the last 8 bytes, so that the result is the
  big-endian value of all 16 bytes. In particular fifteen zero bytes followed by
  \<open>0x01\<close> decode to 1, and sixteen bytes \<open>0xFF\<close> decode to \<open>2^128 - 1\<close>.
\<close>

theorem from_uint128_value:
  "fst (from_entry_data_list (MMDB_DATA_TYPE_UINT128 u n # rest)) = from_uint128 u
   \<and> from_uint128 (Uint128_scalar x) = Return (PyLong (uint x))
   \<and> uint x = uint (ucast (drop_bit 64 x) :: 64 word) * 2 ^ 64 + uint (ucast x :: 64 word)
   \<and> (length a = 16 \<longrightarrow>
        from_uint128 (Uint128_byte_array a)
          = Return (PyLong (big_endian (take 8 a) * 2 ^ 64 + big_endian (drop 8 a)))
        \<and> big_endian (take 8 a) * 2 ^ 64 + big_endian (drop 8 a) = big_endian a)
   \<and> from_uint128 (Uint128_byte_array (replicate 15 0 @ [1])) = Return (PyLong 1)
   \<and> from_uint128 (Uint128_byte_array (replicate 16 0xFF)) = Return (PyLong (2 ^ 128 - 1))"
proof -
  have bytes: "from_uint128 (Uint128_byte_array b)
          = Return (PyLong (big_endian (take 8 b) * 2 ^ 64 + big_endian (drop 8 b)))"
    if "length b = 16" for b
  proof -
    have h: "uint (fold (\<lambda>i h. push_bit 8 h OR ucast (b ! i)) [0..<8] (0 :: 64 word))
               = big_endian (take 8 b)"
      using fold_bytes_big_endian [of 8 0 b] that by simp
    have l: "uint (fold (\<lambda>i h. push_bit 8 h OR ucast (b ! i)) [8..<16] (0 :: 64 word))
               = big_endian (drop 8 b)"
      using fold_bytes_big_endian [of 8 8 b] that by simp
    show ?thesis
      unfolding from_uint128_def Let_def
      by (simp only: mmdb_uint128_t.case prod.case PyLong_FromString_halves option.case h l)
  qed
  have split: "big_endian (take 8 b) * 2 ^ 64 + big_endian (drop 8 b) = big_endian b"
    if "length b = 16" for b
    using big_endian_append [of "take 8 b" "drop 8 b"] that by simp
  have scalar: "from_uint128 (Uint128_scalar x) = Return (PyLong (uint x))"
    unfolding from_uint128_def Let_def
    by (simp only: mmdb_uint128_t.case prod.case PyLong_FromString_halves option.case scalar_halves)
  have one: "big_endian (replicate 15 0 @ [1]) = 1"
    by code_simp
  have ones: "big_endian (replicate 16 0xFF) = 2 ^ 128 - 1"
    by code_simp
  have node: "fst (from_entry_data_list (MMDB_DATA_TYPE_UINT128 u n # rest)) = from_uint128 u"
    by (simp add: from_entry_data_list.simps)
  show ?thesis
    using node scalar scalar_halves [of x] bytes [of a] split [of a]
      bytes [of "replicate 15 0 @ [1]"] split [of "replicate 15 0 @ [1]"] one
      bytes [of "replicate 16 0xFF"] split [of "replicate 16 0xFF"] ones
    by simp
qed

theorem from_uint128_value_witness:
  "length [0x01, 0x23, 0x45, 0x67, 0x89, 0xAB, 0xCD, 0xEF, 0xFE, 0xDC, 0xBA, 0x98, 0x76, 0x54, 0x32, 0x10 :: byte] = 16
   \<and> from_uint128 (Uint128_byte_array [0x01, 0x23, 0x45, 0x67, 0x89, 0xAB, 0xCD, 0xEF, 0xFE, 0xDC, 0xBA, 0x98, 0x76, 0x54, 0x32, 0x10])
       = Return (PyLong 0x0123456789ABCDEFFEDCBA9876543210)"
  using from_uint128_value [where x = 0
      and a = "[0x01, 0x23, 0x45, 0x67, 0x89, 0xAB, 0xCD, 0xEF, 0xFE, 0xDC, 0xBA, 0x98, 0x76, 0x54, 0x32, 0x10]"]
  by (simp add: big_endian_def)

section \<open>Address resolution\<close>

text \<open>
  C9. A packed address whose length is neither 4 nor 16 makes \<open>ip_converter\<close> fail with
  \<^verbatim>\<open>ValueError\<close> (the specification's InvalidAddress); a length of 4 gives an IPv4
  socket address holding these bytes, a length of 16 an IPv6 one.
\<close>

theorem ip_converter_packed_length:
  "(length bytes \<noteq> 4 \<and> length bytes \<noteq> 16 \<longrightarrow>
      ip_converter ext (Other_object (Some (Bytes_object bytes)))
        = Raise (PyExc_ValueError ''argument 1 returned an unexpected packed length for address''))
   \<and> (length bytes = 4 \<longrightarrow>
      ip_converter ext (Other_object (Some (Bytes_object bytes)))
        = Return \<lparr>ss_family = AF_INET, s_addr = bytes\<rparr>)
   \<and> (length bytes = 16 \<longrightarrow>
      ip_converter ext (Other_object (Some (Bytes_object bytes)))
        = Return \<lparr>ss_family = AF_INET6, s_addr = bytes\<rparr>)"
  by (simp add: ip_converter_def)

text \<open>The three cases at packed addresses of 5, 4 and 16 bytes.\<close>

theorem ip_converter_packed_length_witness:
  "ip_converter example_externals (Other_object (Some (Bytes_object [1, 2, 3, 4, 5])))
     = Raise (PyExc_ValueError ''argument 1 returned an unexpected packed length for address'')
   \<and> ip_converter example_externals (Other_object (Some (Bytes_object [1, 2, 3, 4])))
     = Return \<lparr>ss_family = AF_INET, s_addr = [1, 2, 3, 4]\<rparr>
   \<and> ip_converter example_externals (Other_object (Some (Bytes_object (replicate 15 0 @ [1]))))
     = Return \<lparr>ss_family = AF_INET6, s_addr = replicate 15 0 @ [1]\<rparr>"
  using ip_converter_packed_length [of "[1, 2, 3, 4, 5]" example_externals]
    ip_converter_packed_length [of "[1, 2, 3, 4]" example_externals]
    ip_converter_packed_length [of "replicate 15 0 @ [1]" example_externals]
  by simp

section \<open>Lookup\<close>




text \<open>
  C5. On an open reader, for an address that \<open>ip_converter\<close> accepts, a lookup for which
  the engine reports success and no entry returns \<^verbatim>\<open>None\<close> with the corrected prefix
  length, which is not negative; no exception is raised.
\<close>

theorem get_record_not_found:
  assumes "mmdb self = Some db"
    and "PyArg_ParseTuple ext args = Return ip_address"
    and "ss_family ip_address \<noteq> AF_UNSPEC"
    and "MMDB_lookup_sockaddr db ip_address = (MMDB_SUCCESS, result)"
    and "\<not> found_entry result"
  shows "\<exists>prefix_len.
           get_record ext self args = Return (Py_None, prefix_len)
         \<and> Reader_get ext self args = Return Py_None
         \<and> Reader_get_with_prefix_len ext self args = Return (PyTuple [Py_None, PyLong prefix_len])
         \<and> prefix_len = spec_prefix_length (ss_family ip_address) (ip_version db) (uint (netmask result))
         \<and> 0 \<le> prefix_len"
  using assms
  by (simp add: get_record_def Reader_get_def Reader_get_with_prefix_len_def
      spec_prefix_length_def Let_def max_def)

text \<open>
  The address \<open>9.9.9.9\<close> is not in the IPv6 database; the raw netmask 80 is below 96
  and the prefix length is 0.
\<close>

theorem get_record_not_found_witness:
  "mmdb \<lparr>mmdb = Some example_db, closed = False\<rparr> = Some example_db
   \<and> PyArg_ParseTuple example_externals (packed [9, 9, 9, 9])
        = Return \<lparr>ss_family = AF_INET, s_addr = [9, 9, 9, 9]\<rparr>
   \<and> ss_family \<lparr>ss_family = AF_INET, s_addr = [9, 9, 9, 9]\<rparr> \<noteq> AF_UNSPEC
   \<and> MMDB_lookup_sockaddr example_db \<lparr>ss_family = AF_INET, s_addr = [9, 9, 9, 9]\<rparr>
        = (MMDB_SUCCESS, \<lparr>found_entry = False, entry = 0, netmask = 80\<rparr>)
   \<and> \<not> found_entry \<lparr>found_entry = False, entry = 0, netmask = 80\<rparr>
   \<and> get_record example_externals \<lparr>mmdb = Some example_db, closed = False\<rparr> (packed [9, 9, 9, 9])
        = Return (Py_None, 0)
   \<and> Reader_get_with_prefix_len example_externals \<lparr>mmdb = Some example_db, closed = False\<rparr>
          (packed [9, 9, 9, 9])
        = Return (PyTuple [Py_None, PyLong 0])"
proof -
  have a: "PyArg_ParseTuple example_externals (packed [9, 9, 9, 9])
             = Return \<lparr>ss_family = AF_INET, s_addr = [9, 9, 9, 9]\<rparr>"
    by (simp add: PyArg_ParseTuple_def packed_def ip_converter_def)
  have l: "MMDB_lookup_sockaddr example_db \<lparr>ss_family = AF_INET, s_addr = [9, 9, 9, 9]\<rparr>
             = (MMDB_SUCCESS, \<lparr>found_entry = False, entry = 0, netmask = 80\<rparr>)"
    by (simp add: example_db_def)
  have v: "ip_version example_db = 6" by (simp add: example_db_def)
  show ?thesis
    using a l get_record_not_found [OF _ a _ l, of "\<lparr>mmdb = Some example_db, closed = False\<rparr>"]
    by (auto simp: spec_prefix_length_def v)
qed

text \<open>
  C6. On an open reader, for an address that \<open>ip_converter\<close> accepts, a lookup for which
  the engine reports a status other than success fails: with \<^verbatim>\<open>ValueError\<close> (the
  specification's InvalidAddress) when the status is
  \<open>MMDB_IPV6_LOOKUP_IN_IPV4_DATABASE_ERROR\<close>, and with \<open>MaxMindDB_error\<close> (CorruptDatabase)
  for every other status. The message holds the text of the address and the engine's
  \<^verbatim>\<open>MMDB_strerror\<close> text.
\<close>

theorem get_record_lookup_error:
  assumes "mmdb self = Some db"
    and "PyArg_ParseTuple ext args = Return ip_address"
    and "ss_family ip_address \<noteq> AF_UNSPEC"
    and "MMDB_lookup_sockaddr db ip_address = (mmdb_error, result)"
    and "mmdb_error \<noteq> MMDB_SUCCESS"
  shows "get_record ext self args =
           Raise ((if mmdb_error = MMDB_IPV6_LOOKUP_IN_IPV4_DATABASE_ERROR
                   then PyExc_ValueError else MaxMindDB_error)
                  (''Error looking up '' @ address_text ext (ss_family ip_address) (s_addr ip_address)
                     @ ''. '' @ MMDB_strerror ext mmdb_error))
       \<and> Reader_get ext self args =
           Raise ((if mmdb_error = MMDB_IPV6_LOOKUP_IN_IPV4_DATABASE_ERROR
                   then PyExc_ValueError else MaxMindDB_error)
                  (''Error looking up '' @ address_text ext (ss_family ip_address) (s_addr ip_address)
                     @ ''. '' @ MMDB_strerror ext mmdb_error))
       \<and> Reader_get_with_prefix_len ext self args =
           Raise ((if mmdb_error = MMDB_IPV6_LOOKUP_IN_IPV4_DATABASE_ERROR
                   then PyExc_ValueError else MaxMindDB_error)
                  (''Error looking up '' @ address_text ext (ss_family ip_address) (s_addr ip_address)
                     @ ''. '' @ MMDB_strerror ext mmdb_error))"
proof -
  have f: "format_sockaddr ext ip_address
             = Return (address_text ext (ss_family ip_address) (s_addr ip_address))"
    using assms(3) by (cases "ss_family ip_address") (simp_all add: format_sockaddr_def inet_ntop_def)
  show ?thesis
    using assms by (simp add: get_record_def Reader_get_def Reader_get_with_prefix_len_def f Let_def)
qed

text \<open>
  An IPv6 address and an IPv4 address looked up in the IPv4 database with the damaged
  search tree.
\<close>

theorem get_record_lookup_error_witness:
  "mmdb \<lparr>mmdb = Some example_db_v4, closed = False\<rparr> = Some example_db_v4
   \<and> PyArg_ParseTuple example_externals (packed (replicate 15 0 @ [1]))
        = Return \<lparr>ss_family = AF_INET6, s_addr = replicate 15 0 @ [1]\<rparr>
   \<and> ss_family \<lparr>ss_family = AF_INET6, s_addr = replicate 15 0 @ [1]\<rparr> \<noteq> AF_UNSPEC
   \<and> MMDB_lookup_sockaddr example_db_v4 \<lparr>ss_family = AF_INET6, s_addr = replicate 15 0 @ [1]\<rparr>
        = (MMDB_IPV6_LOOKUP_IN_IPV4_DATABASE_ERROR, \<lparr>found_entry = False, entry = 0, netmask = 0\<rparr>)
   \<and> MMDB_IPV6_LOOKUP_IN_IPV4_DATABASE_ERROR \<noteq> MMDB_SUCCESS
   \<and> Reader_get example_externals \<lparr>mmdb = Some example_db_v4, closed = False\<rparr>
          (packed (replicate 15 0 @ [1]))
        = Raise (PyExc_ValueError
            ''Error looking up ::1. You attempted to look up an IPv6 address in an IPv4-only database'')
   \<and> PyArg_ParseTuple example_externals (packed [1, 2, 3, 4])
        = Return \<lparr>ss_family = AF_INET, s_addr = [1, 2, 3, 4]\<rparr>
   \<and> MMDB_lookup_sockaddr example_db_v4 \<lparr>ss_family = AF_INET, s_addr = [1, 2, 3, 4]\<rparr>
        = (MMDB_ERROR 2, \<lparr>found_entry = False, entry = 0, netmask = 0\<rparr>)
   \<and> MMDB_ERROR 2 \<noteq> MMDB_SUCCESS
   \<and> Reader_get example_externals \<lparr>mmdb = Some example_db_v4, closed = False\<rparr> (packed [1, 2, 3, 4])
        = Raise (MaxMindDB_error ''Error looking up 1.2.3.4. Unknown error code'')"
proof -
  have a6: "PyArg_ParseTuple example_externals (packed (replicate 15 0 @ [1]))
             = Return \<lparr>ss_family = AF_INET6, s_addr = replicate 15 0 @ [1]\<rparr>"
    by (simp add: PyArg_ParseTuple_def packed_def ip_converter_def)
  have l6: "MMDB_lookup_sockaddr example_db_v4 \<lparr>ss_family = AF_INET6, s_addr = replicate 15 0 @ [1]\<rparr>
        = (MMDB_IPV6_LOOKUP_IN_IPV4_DATABASE_ERROR, \<lparr>found_entry = False, entry = 0, netmask = 0\<rparr>)"
    by (simp add: example_db_v4_def)
  have a4: "PyArg_ParseTuple example_externals (packed [1, 2, 3, 4])
             = Return \<lparr>ss_family = AF_INET, s_addr = [1, 2, 3, 4]\<rparr>"
    by (simp add: PyArg_ParseTuple_def packed_def ip_converter_def)
  have l4: "MMDB_lookup_sockaddr example_db_v4 \<lparr>ss_family = AF_INET, s_addr = [1, 2, 3, 4]\<rparr>
        = (MMDB_ERROR 2, \<lparr>found_entry = False, entry = 0, netmask = 0\<rparr>)"
    by (simp add: example_db_v4_def)
  have t4: "address_text example_externals AF_INET [1, 2, 3, 4] = ''1.2.3.4''"
    by (simp add: example_externals_def dotted_decimal_def dec_digits.simps)
  show ?thesis
    using a6 l6 a4 l4
      get_record_lookup_error [OF _ a6 _ l6, of "\<lparr>mmdb = Some example_db_v4, closed = False\<rparr>"]
      get_record_lookup_error [OF _ a4 _ l4, of "\<lparr>mmdb = Some example_db_v4, closed = False\<rparr>"]
    by (simp add: t4) (simp add: example_externals_def)
qed

section \<open>Lifecycle\<close>

text \<open>
  C7. \<open>Reader_close\<close> releases the handle of an open reader and nothing for a closed
  one. After it the reader is closed: a second \<open>Reader_close\<close> changes nothing and
  releases nothing, so does \<open>Reader_dealloc\<close>, and \<open>get_record\<close>, \<open>Reader_get\<close>,
  \<open>Reader_get_with_prefix_len\<close> and \<open>Reader_metadata\<close> fail with the exception whose
  message is \<^verbatim>\<open>Attempt to read from a closed MaxMind DB.\<close> (the specification's
  ClosedReader; a \<^verbatim>\<open>ValueError\<close> for the lookups, an \<^verbatim>\<open>IOError\<close> for the metadata).
\<close>

theorem Reader_close_idempotent:
  assumes "Reader_close self = (self', released)"
  shows "released = (case mmdb self of Some db \<Rightarrow> [db] | None \<Rightarrow> [])
       \<and> mmdb self' = None \<and> closed self'
       \<and> Reader_close self' = (self', [])
       \<and> Reader_dealloc self' = []
       \<and> get_record ext self' args = Raise (PyExc_ValueError ''Attempt to read from a closed MaxMind DB.'')
       \<and> Reader_get ext self' args = Raise (PyExc_ValueError ''Attempt to read from a closed MaxMind DB.'')
       \<and> Reader_get_with_prefix_len ext self' args
            = Raise (PyExc_ValueError ''Attempt to read from a closed MaxMind DB.'')
       \<and> Reader_metadata self' = Raise (PyExc_IOError ''Attempt to read from a closed MaxMind DB.'')"
  using assms
  by (auto simp: Reader_close_def Reader_dealloc_def get_record_def Reader_get_def
      Reader_get_with_prefix_len_def Reader_metadata_def split: option.splits)

text \<open>Closing an open reader, closing it again, and reading from it.\<close>

theorem Reader_close_idempotent_witness:
  "Reader_close \<lparr>mmdb = Some example_db, closed = False\<rparr>
     = (\<lparr>mmdb = None, closed = True\<rparr>, [example_db])
   \<and> Reader_close \<lparr>mmdb = None, closed = True\<rparr> = (\<lparr>mmdb = None, closed = True\<rparr>, [])
   \<and> Reader_get example_externals \<lparr>mmdb = None, closed = True\<rparr> (packed [1, 2, 3, 4])
       = Raise (PyExc_ValueError ''Attempt to read from a closed MaxMind DB.'')
   \<and> Reader_metadata \<lparr>mmdb = None, closed = True\<rparr>
       = Raise (PyExc_IOError ''Attempt to read from a closed MaxMind DB.'')"
proof -
  have c: "Reader_close \<lparr>mmdb = Some example_db, closed = False\<rparr>
             = (\<lparr>mmdb = None, closed = True\<rparr>, [example_db])"
    by (simp add: Reader_close_def)
  show ?thesis
    using c Reader_close_idempotent [OF c, of example_externals "packed [1, 2, 3, 4]"] by blast
qed

section \<open>The entry decoder\<close>

text \<open>
  C1. A map node that announces a pair and is the last node of the list: after
  \<^verbatim>\<open>*entry_data_list = (*entry_data_list)->next\<close> the cursor is null, and \<open>from_map\<close>
  reads \<^verbatim>\<open>(*entry_data_list)->entry_data.utf8_string\<close> through it. The same end of the
  list at the value of a pair, at an element of an array, or at the start is reported
  as \<open>MaxMindDB_error\<close>.
\<close>

theorem from_map_missing_key_node:
  "from_entry_data_list [MMDB_DATA_TYPE_MAP 1] = (Fault Null_dereference, [])
   \<and> fst (from_entry_data_list [MMDB_DATA_TYPE_MAP 1, MMDB_DATA_TYPE_UTF8_STRING [0x61]])
       = Raise (MaxMindDB_error
           ''Error while looking up data. Your database may be corrupt or you have found a bug in libmaxminddb.'')
   \<and> fst (from_entry_data_list [MMDB_DATA_TYPE_ARRAY 1])
       = Raise (MaxMindDB_error
           ''Error while looking up data. Your database may be corrupt or you have found a bug in libmaxminddb.'')
   \<and> fst (from_entry_data_list [])
       = Raise (MaxMindDB_error
           ''Error while looking up data. Your database may be corrupt or you have found a bug in libmaxminddb.'')"
  by (simp add: from_entry_data_list.simps from_map.simps from_array.simps
      PyUnicode_FromStringAndSize_def utf8_lead_def)

subsection \<open>Decoding a flattened tree\<close>

lemma flatten_not_Nil: "flatten t \<noteq> []"
  by (cases t) simp_all

lemma from_entry_data_list_scalar:
  "\<not> is_container e \<Longrightarrow>
   from_entry_data_list (e # rest) = (fst (from_entry_data_list [e]), e # rest)"
  by (cases e) (simp_all add: from_entry_data_list.simps is_container_def split: outcome.split)

lemma key_textD:
  "key_text k = Some key \<Longrightarrow> PyUnicode_FromStringAndSize (utf8_string k) (data_size k) = Return key"
  by (auto simp: key_text_def split: outcome.splits)

lemma from_map_step:
  assumes "i < unat map_size" and "key_text k = Some key"
    and "from_entry_data_list value_node = (Return v, rest)"
  shows "from_map map_size i py_obj (x # k # value_node)
           = from_map map_size (Suc i) (PyDict_SetItem py_obj key v) rest"
proof -
  have "PyUnicode_FromStringAndSize (utf8_string k) (data_size k) = Return key"
    using key_textD [OF assms(2)] .
  then show ?thesis
    using assms(1,3) by (subst from_map.simps) simp
qed

lemma from_map_fail:
  assumes "i < unat map_size" and "key_text k = Some key"
    and "from_entry_data_list value_node = (r, rest)" and "\<not> is_Return r"
  shows "from_map map_size i py_obj (x # k # value_node) = (r, rest)"
proof -
  have "PyUnicode_FromStringAndSize (utf8_string k) (data_size k) = Return key"
    using key_textD [OF assms(2)] .
  then show ?thesis
    using assms(1,3,4) by (subst from_map.simps) (cases r; simp add: is_Return_def)
qed

lemma from_array_step:
  assumes "i < unat array_size" and "from_entry_data_list value_node = (Return v, rest)"
  shows "from_array array_size i py_obj (x # value_node)
           = from_array array_size (Suc i) (py_obj @ [v]) rest"
  using assms by (subst from_array.simps) simp

lemma from_array_fail:
  assumes "i < unat array_size" and "from_entry_data_list value_node = (r, rest)"
    and "\<not> is_Return r"
  shows "from_array array_size i py_obj (x # value_node) = (r, rest)"
  using assms by (subst from_array.simps) (cases r; simp add: is_Return_def)

lemma from_map_pairs:
  assumes "\<And>kv tail. kv \<in> set kvs \<Longrightarrow>
             from_entry_data_list (flatten (snd kv) @ tail)
               = (Return (value_of (snd kv)), last (flatten (snd kv)) # tail)"
    and "\<And>kv. kv \<in> set kvs \<Longrightarrow> key_text (fst kv) \<noteq> None"
    and "i + length kvs \<le> unat map_size"
  shows "from_map map_size i d (x # pairs kvs @ tail)
           = from_map map_size (i + length kvs)
               (foldl (\<lambda>d kv. PyDict_SetItem d (fst kv) (snd kv)) d (entries kvs))
               (last (x # pairs kvs) # tail)"
  using assms
proof (induction kvs arbitrary: i d x)
  case Nil
  show ?case by (simp add: pairs_def entries_def)
next
  case (Cons kv kvs)
  obtain key where key: "key_text (fst kv) = Some key"
    using Cons.prems(2) [of kv] by auto
  have v: "from_entry_data_list (flatten (snd kv) @ pairs kvs @ tail)
             = (Return (value_of (snd kv)), last (flatten (snd kv)) # pairs kvs @ tail)"
    using Cons.prems(1) [of kv "pairs kvs @ tail"] by simp
  have i: "i < unat map_size" using Cons.prems(3) by simp
  have "from_map map_size i d (x # pairs (kv # kvs) @ tail)
          = from_map map_size i d (x # fst kv # (flatten (snd kv) @ pairs kvs @ tail))"
    by (simp add: pairs_def)
  also have "\<dots> = from_map map_size (Suc i) (PyDict_SetItem d key (value_of (snd kv)))
                      (last (flatten (snd kv)) # pairs kvs @ tail)"
    by (rule from_map_step [OF i key v])
  also have "\<dots> = from_map map_size (Suc i + length kvs)
                      (foldl (\<lambda>d kv. PyDict_SetItem d (fst kv) (snd kv))
                         (PyDict_SetItem d key (value_of (snd kv))) (entries kvs))
                      (last (last (flatten (snd kv)) # pairs kvs) # tail)"
    using Cons.prems by (intro Cons.IH) simp_all
  finally show ?case
    using key flatten_not_Nil [of "snd kv"]
    by (simp add: entries_def key_of_def pairs_def)
qed

lemma from_array_elements:
  assumes "\<And>t tail. t \<in> set ts \<Longrightarrow>
             from_entry_data_list (flatten t @ tail) = (Return (value_of t), last (flatten t) # tail)"
    and "i + length ts \<le> unat array_size"
  shows "from_array array_size i l (x # concat (map flatten ts) @ tail)
           = from_array array_size (i + length ts) (l @ map value_of ts)
               (last (x # concat (map flatten ts)) # tail)"
  using assms
proof (induction ts arbitrary: i l x)
  case Nil
  show ?case by simp
next
  case (Cons t ts)
  have v: "from_entry_data_list (flatten t @ concat (map flatten ts) @ tail)
             = (Return (value_of t), last (flatten t) # concat (map flatten ts) @ tail)"
    using Cons.prems(1) [of t] by simp
  have i: "i < unat array_size" using Cons.prems(2) by simp
  have "from_array array_size i l (x # concat (map flatten (t # ts)) @ tail)
          = from_array array_size i l (x # (flatten t @ concat (map flatten ts) @ tail))"
    by simp
  also have "\<dots> = from_array array_size (Suc i) (l @ [value_of t])
                      (last (flatten t) # concat (map flatten ts) @ tail)"
    by (rule from_array_step [OF i v])
  also have "\<dots> = from_array array_size (Suc i + length ts) ((l @ [value_of t]) @ map value_of ts)
                      (last (last (flatten t) # concat (map flatten ts)) # tail)"
    using Cons.prems by (intro Cons.IH) simp_all
  finally show ?case
    using flatten_not_Nil [of t] by simp
qed

lemma unat_length: "n < 2 ^ 32 \<Longrightarrow> unat (word_of_nat n :: 32 word) = n"
  by (simp add: unsigned_of_nat take_bit_nat_eq_self)

lemma from_entry_data_list_flatten:
  "decodable t \<Longrightarrow>
   from_entry_data_list (flatten t @ tail) = (Return (value_of t), last (flatten t) # tail)"
proof (induction t arbitrary: tail)
  case (Scalar e)
  then show ?case
    using from_entry_data_list_scalar [of e tail]
    by (auto simp: is_Return_def split: outcome.splits)
next
  case (Map_tree kvs)
  let ?n = "word_of_nat (length kvs) :: 32 word"
  have n: "unat ?n = length kvs" using Map_tree.prems by (simp add: unat_length)
  have ih: "from_entry_data_list (flatten (snd kv) @ tl)
              = (Return (value_of (snd kv)), last (flatten (snd kv)) # tl)"
    if "kv \<in> set kvs" for kv tl
  proof -
    have "snd kv \<in> Basic_BNFs.snds kv"
      by (cases kv) (simp add: snds.simps)
    moreover have "decodable (snd kv)"
      using that Map_tree.prems by (auto simp: list_all_iff)
    ultimately show ?thesis
      using that Map_tree.IH [of kv "snd kv" tl] by simp
  qed
  have keys: "key_text (fst kv) \<noteq> None" if "kv \<in> set kvs" for kv
    using that Map_tree.prems by (auto simp: list_all_iff)
  have "from_entry_data_list (flatten (Map_tree kvs) @ tail)
          = from_map ?n 0 [] (MMDB_DATA_TYPE_MAP ?n # pairs kvs @ tail)"
    by (simp add: from_entry_data_list.simps pairs_def)
  also have "\<dots> = from_map ?n (0 + length kvs)
                      (foldl (\<lambda>d kv. PyDict_SetItem d (fst kv) (snd kv)) [] (entries kvs))
                      (last (MMDB_DATA_TYPE_MAP ?n # pairs kvs) # tail)"
    by (rule from_map_pairs) (use ih keys n in simp_all)
  also have "\<dots> = (Return (PyDict (dict_of (entries kvs))),
                     last (MMDB_DATA_TYPE_MAP ?n # pairs kvs) # tail)"
    by (subst from_map.simps) (simp add: n dict_of_def)
  finally show ?case by (simp add: entries_def pairs_def)
next
  case (Array_tree ts)
  let ?n = "word_of_nat (length ts) :: 32 word"
  have n: "unat ?n = length ts" using Array_tree.prems by (simp add: unat_length)
  have ih: "from_entry_data_list (flatten t @ tl) = (Return (value_of t), last (flatten t) # tl)"
    if "t \<in> set ts" for t tl
    using that Array_tree.prems Array_tree.IH [of t tl] by (auto simp: list_all_iff)
  have "from_entry_data_list (flatten (Array_tree ts) @ tail)
          = from_array ?n 0 [] (MMDB_DATA_TYPE_ARRAY ?n # concat (map flatten ts) @ tail)"
    by (simp add: from_entry_data_list.simps)
  also have "\<dots> = from_array ?n (0 + length ts) ([] @ map value_of ts)
                      (last (MMDB_DATA_TYPE_ARRAY ?n # concat (map flatten ts)) # tail)"
    by (rule from_array_elements) (use ih n in simp_all)
  also have "\<dots> = (Return (PyList (map value_of ts)),
                     last (MMDB_DATA_TYPE_ARRAY ?n # concat (map flatten ts)) # tail)"
    by (subst from_array.simps) (simp add: n)
  finally show ?case by simp
qed

subsection \<open>Keys\<close>

text \<open>
  C2, as stated, fails: a map whose key node has the type bytes decodes to a
  dictionary.
\<close>

theorem from_map_bytes_key_counterexample:
  "fst (from_entry_data_list
          [MMDB_DATA_TYPE_MAP 1, MMDB_DATA_TYPE_BYTES [0x61], MMDB_DATA_TYPE_UINT16 7 1])
     = Return (PyDict [([97], PyLong 7)])"
  by (simp add: from_entry_data_list.simps from_map.simps PyUnicode_FromStringAndSize_def
      utf8_lead_def PyLong_FromLong_def)

text \<open>
  C2, amended. The type of a key node is never checked: for a node of any type the
  key is what \<^verbatim>\<open>PyUnicode_FromStringAndSize\<close> returns for the node's members
  \<^verbatim>\<open>utf8_string\<close> and \<^verbatim>\<open>data_size\<close>. Hence, at the key position after any number of
  pairs that decode: two key nodes that agree on these two members are decoded alike,
  whatever their types (a bytes node like the UTF-8 string node with the same bytes);
  a node of any type with \<^verbatim>\<open>data_size\<close> 0 gives the empty key; a node of any type from
  which a key is read is accepted, and the pair is inserted under that key; when the
  read raises an exception, decoding fails with that exception, which is never
  \<open>MaxMindDB_error\<close>, and which is \<^verbatim>\<open>UnicodeDecodeError\<close> when the node points to bytes
  that are not well-formed UTF-8; and a map all of whose keys are read and all of
  whose values are decodable decodes to the dictionary of the keys read and the values
  decoded.
\<close>

theorem from_map_key_type_not_checked:
  assumes "list_all (\<lambda>kv. key_text (fst kv) \<noteq> None \<and> decodable (snd kv)) kvs"
  shows "(length kvs < 2 ^ 32 \<longrightarrow>
            fst (from_entry_data_list (flatten (Map_tree kvs) @ rest))
              = Return (PyDict (dict_of (entries kvs))))
       \<and> (length kvs < unat map_size \<longrightarrow>
            utf8_string k = utf8_string k' \<longrightarrow> data_size k = data_size k' \<longrightarrow>
            fst (from_entry_data_list (MMDB_DATA_TYPE_MAP map_size # pairs kvs @ k # rest))
              = fst (from_entry_data_list (MMDB_DATA_TYPE_MAP map_size # pairs kvs @ k' # rest)))
       \<and> (length kvs < unat map_size \<longrightarrow>
            PyUnicode_FromStringAndSize (utf8_string k) (data_size k) = Raise e \<longrightarrow>
            fst (from_entry_data_list (MMDB_DATA_TYPE_MAP map_size # pairs kvs @ k # rest))
              = Raise e
            \<and> (\<forall>msg. e \<noteq> MaxMindDB_error msg))
       \<and> (length kvs < unat map_size \<longrightarrow>
            utf8_string k = String_pointer s \<longrightarrow> 0 < data_size k \<longrightarrow>
            utf8_decode (take (data_size k) s) = None \<longrightarrow>
            fst (from_entry_data_list (MMDB_DATA_TYPE_MAP map_size # pairs kvs @ k # rest))
              = Raise PyExc_UnicodeDecodeError)
       \<and> (length kvs < unat map_size \<longrightarrow>
            PyUnicode_FromStringAndSize (utf8_string k) (data_size k) = Return key \<longrightarrow>
            from_entry_data_list rest = (Return v, rest') \<longrightarrow>
            from_entry_data_list (MMDB_DATA_TYPE_MAP map_size # pairs kvs @ k # rest)
              = from_map map_size (Suc (length kvs)) (PyDict_SetItem (dict_of (entries kvs)) key v)
                  rest')
       \<and> (data_size k = 0 \<longrightarrow> key_text k = Some [])"
proof -
  have whole: "fst (from_entry_data_list (flatten (Map_tree kvs) @ rest))
                 = Return (PyDict (dict_of (entries kvs)))" if "length kvs < 2 ^ 32"
    using from_entry_data_list_flatten [of "Map_tree kvs" rest] that assms
    by (simp add: entries_def)
  have upto: "from_entry_data_list (MMDB_DATA_TYPE_MAP map_size # pairs kvs @ k # rest)
                = from_map map_size (length kvs) (dict_of (entries kvs))
                    (last (MMDB_DATA_TYPE_MAP map_size # pairs kvs) # k # rest)"
    if "length kvs < unat map_size" for k
  proof -
    have "from_entry_data_list (MMDB_DATA_TYPE_MAP map_size # pairs kvs @ k # rest)
            = from_map map_size 0 [] (MMDB_DATA_TYPE_MAP map_size # pairs kvs @ k # rest)"
      by (simp add: from_entry_data_list.simps)
    also have "\<dots> = from_map map_size (0 + length kvs)
                    (foldl (\<lambda>d kv. PyDict_SetItem d (fst kv) (snd kv)) [] (entries kvs))
                    (last (MMDB_DATA_TYPE_MAP map_size # pairs kvs) # k # rest)"
      by (rule from_map_pairs)
        (use assms that in \<open>auto simp: list_all_iff from_entry_data_list_flatten\<close>)
    finally show ?thesis by (simp add: dict_of_def)
  qed
  have same: "fst (from_entry_data_list (MMDB_DATA_TYPE_MAP map_size # pairs kvs @ k # rest))
              = fst (from_entry_data_list (MMDB_DATA_TYPE_MAP map_size # pairs kvs @ k' # rest))"
    if "length kvs < unat map_size" "utf8_string k = utf8_string k'" "data_size k = data_size k'"
    unfolding upto [OF that(1)]
    by (subst (1 2) from_map.simps) (simp add: that split: prod.split outcome.split)
  have raises: "fst (from_entry_data_list (MMDB_DATA_TYPE_MAP map_size # pairs kvs @ k # rest))
              = Raise e"
    if "length kvs < unat map_size"
      "PyUnicode_FromStringAndSize (utf8_string k) (data_size k) = Raise e" for e
    unfolding upto [OF that(1)]
    by (subst from_map.simps) (simp add: that)
  have which: "e \<noteq> MaxMindDB_error msg"
    if "PyUnicode_FromStringAndSize (utf8_string k) (data_size k) = Raise e" for msg
    using that
    by (auto simp: PyUnicode_FromStringAndSize_def split: if_splits char_pointer.splits option.splits)
  have ill_formed: "fst (from_entry_data_list (MMDB_DATA_TYPE_MAP map_size # pairs kvs @ k # rest))
              = Raise PyExc_UnicodeDecodeError"
    if "length kvs < unat map_size" "utf8_string k = String_pointer s" "0 < data_size k"
      "utf8_decode (take (data_size k) s) = None"
    using raises [of PyExc_UnicodeDecodeError] that
    by (simp add: PyUnicode_FromStringAndSize_def)
  have accepted: "from_entry_data_list (MMDB_DATA_TYPE_MAP map_size # pairs kvs @ k # rest)
              = from_map map_size (Suc (length kvs)) (PyDict_SetItem (dict_of (entries kvs)) key v)
                  rest'"
    if "length kvs < unat map_size"
      "PyUnicode_FromStringAndSize (utf8_string k) (data_size k) = Return key"
      "from_entry_data_list rest = (Return v, rest')"
    unfolding upto [OF that(1)]
    by (subst from_map.simps) (simp add: that)
  have empty: "key_text k = Some []" if "data_size k = 0"
    using that by (simp add: key_text_def PyUnicode_FromStringAndSize_def)
  show ?thesis using whole same raises which ill_formed accepted empty by blast
qed

text \<open>
  A map with a key of type bytes; a map whose key is an unsigned 16-bit node with
  \<^verbatim>\<open>data_size\<close> 0, which gives the empty key; and a map of two pairs whose second key
  is the byte \<open>0xFF\<close>.
\<close>

theorem from_map_key_type_not_checked_witness:
  "list_all (\<lambda>kv. key_text (fst kv) \<noteq> None \<and> decodable (snd kv))
     [(MMDB_DATA_TYPE_BYTES [0x61], Scalar (MMDB_DATA_TYPE_UINT16 1 1))]
   \<and> length [(MMDB_DATA_TYPE_BYTES [0x61], Scalar (MMDB_DATA_TYPE_UINT16 1 1))] < (2 :: nat) ^ 32
   \<and> fst (from_entry_data_list
        [MMDB_DATA_TYPE_MAP 1, MMDB_DATA_TYPE_BYTES [0x61], MMDB_DATA_TYPE_UINT16 1 1])
       = Return (PyDict [([97], PyLong 1)])
   \<and> list_all (\<lambda>kv. key_text (fst kv) \<noteq> None \<and> decodable (snd kv))
     [(MMDB_DATA_TYPE_UINT16 0 0, Scalar (MMDB_DATA_TYPE_UINT16 7 1))]
   \<and> fst (from_entry_data_list
        [MMDB_DATA_TYPE_MAP 1, MMDB_DATA_TYPE_UINT16 0 0, MMDB_DATA_TYPE_UINT16 7 1])
       = Return (PyDict [([], PyLong 7)])
   \<and> length [(MMDB_DATA_TYPE_BYTES [0x61], Scalar (MMDB_DATA_TYPE_UINT16 1 1))] < unat (2 :: 32 word)
   \<and> PyUnicode_FromStringAndSize (utf8_string (MMDB_DATA_TYPE_BYTES [0xFF]))
        (data_size (MMDB_DATA_TYPE_BYTES [0xFF])) = Raise PyExc_UnicodeDecodeError
   \<and> fst (from_entry_data_list
        [MMDB_DATA_TYPE_MAP 2, MMDB_DATA_TYPE_BYTES [0x61], MMDB_DATA_TYPE_UINT16 1 1,
         MMDB_DATA_TYPE_BYTES [0xFF], MMDB_DATA_TYPE_UINT16 2 1])
       = Raise PyExc_UnicodeDecodeError
   \<and> utf8_string (MMDB_DATA_TYPE_BYTES [0xFF]) = utf8_string (MMDB_DATA_TYPE_UTF8_STRING [0xFF])
   \<and> data_size (MMDB_DATA_TYPE_BYTES [0xFF]) = data_size (MMDB_DATA_TYPE_UTF8_STRING [0xFF])
   \<and> fst (from_entry_data_list
        [MMDB_DATA_TYPE_MAP 2, MMDB_DATA_TYPE_BYTES [0x61], MMDB_DATA_TYPE_UINT16 1 1,
         MMDB_DATA_TYPE_UTF8_STRING [0xFF], MMDB_DATA_TYPE_UINT16 2 1])
       = Raise PyExc_UnicodeDecodeError
   \<and> utf8_string (MMDB_DATA_TYPE_UTF8_STRING [0xFF]) = String_pointer [0xFF]
   \<and> 0 < data_size (MMDB_DATA_TYPE_UTF8_STRING [0xFF])
   \<and> utf8_decode (take (data_size (MMDB_DATA_TYPE_UTF8_STRING [0xFF])) [0xFF]) = None
   \<and> PyUnicode_FromStringAndSize (utf8_string (MMDB_DATA_TYPE_UINT16 0 0))
        (data_size (MMDB_DATA_TYPE_UINT16 0 0)) = Return []
   \<and> from_entry_data_list [MMDB_DATA_TYPE_UINT16 7 1]
       = (Return (PyLong 7), [MMDB_DATA_TYPE_UINT16 7 1])
   \<and> fst (from_entry_data_list
        [MMDB_DATA_TYPE_MAP 2, MMDB_DATA_TYPE_BYTES [0x61], MMDB_DATA_TYPE_UINT16 1 1,
         MMDB_DATA_TYPE_UINT16 0 0, MMDB_DATA_TYPE_UINT16 7 1])
       = Return (PyDict [([97], PyLong 1), ([], PyLong 7)])
   \<and> data_size (MMDB_DATA_TYPE_BOOLEAN True 0) = 0
   \<and> key_text (MMDB_DATA_TYPE_BOOLEAN True 0) = Some []"
proof -
  let ?kvs = "[(MMDB_DATA_TYPE_BYTES [0x61], Scalar (MMDB_DATA_TYPE_UINT16 1 1))]"
  let ?zero = "[(MMDB_DATA_TYPE_UINT16 0 0, Scalar (MMDB_DATA_TYPE_UINT16 7 1))]"
  have k: "key_text (MMDB_DATA_TYPE_BYTES [0x61]) = Some [97]"
    by (simp add: key_text_def PyUnicode_FromStringAndSize_def utf8_lead_def)
  have k0: "key_text (MMDB_DATA_TYPE_UINT16 0 0) = Some []"
    by (simp add: key_text_def PyUnicode_FromStringAndSize_def)
  have h: "list_all (\<lambda>kv. key_text (fst kv) \<noteq> None \<and> decodable (snd kv)) ?kvs"
    by (simp add: k is_container_def is_Return_def from_entry_data_list.simps)
  have h0: "list_all (\<lambda>kv. key_text (fst kv) \<noteq> None \<and> decodable (snd kv)) ?zero"
    by (simp add: k0 is_container_def is_Return_def from_entry_data_list.simps)
  have b: "PyUnicode_FromStringAndSize (utf8_string (MMDB_DATA_TYPE_BYTES [0xFF]))
             (data_size (MMDB_DATA_TYPE_BYTES [0xFF])) = Raise PyExc_UnicodeDecodeError"
    by (simp add: PyUnicode_FromStringAndSize_def utf8_lead_def)
  have e: "dict_of (entries ?kvs) = [([97], PyLong 1)]"
    by (simp add: dict_of_def entries_def key_of_def k from_entry_data_list.simps PyLong_FromLong_def)
  have e0: "dict_of (entries ?zero) = [([], PyLong 7)]"
    by (simp add: dict_of_def entries_def key_of_def k0 from_entry_data_list.simps PyLong_FromLong_def)
  have w: "fst (from_entry_data_list (flatten (Map_tree ?kvs) @ [])) = Return (PyDict [([97], PyLong 1)])"
    using from_map_key_type_not_checked [OF h, of "[]"] by (simp add: e)
  have w0: "fst (from_entry_data_list (flatten (Map_tree ?zero) @ [])) = Return (PyDict [([], PyLong 7)])"
    using from_map_key_type_not_checked [OF h0, of "[]"] by (simp add: e0)
  have r: "fst (from_entry_data_list
            (MMDB_DATA_TYPE_MAP 2 # pairs ?kvs @ MMDB_DATA_TYPE_BYTES [0xFF] # [MMDB_DATA_TYPE_UINT16 2 1]))
           = Raise PyExc_UnicodeDecodeError"
    using from_map_key_type_not_checked [OF h, of "[MMDB_DATA_TYPE_UINT16 2 1]" 2
        "MMDB_DATA_TYPE_BYTES [0xFF]" _ PyExc_UnicodeDecodeError] b
    by simp
  have s: "fst (from_entry_data_list
            (MMDB_DATA_TYPE_MAP 2 # pairs ?kvs @ MMDB_DATA_TYPE_BYTES [0xFF] # [MMDB_DATA_TYPE_UINT16 2 1]))
           = fst (from_entry_data_list
            (MMDB_DATA_TYPE_MAP 2 # pairs ?kvs @ MMDB_DATA_TYPE_UTF8_STRING [0xFF] # [MMDB_DATA_TYPE_UINT16 2 1]))"
    using from_map_key_type_not_checked [OF h, of "[MMDB_DATA_TYPE_UINT16 2 1]" 2
        "MMDB_DATA_TYPE_BYTES [0xFF]" "MMDB_DATA_TYPE_UTF8_STRING [0xFF]"]
    by simp
  have z: "key_text (MMDB_DATA_TYPE_BOOLEAN True 0) = Some []"
    using from_map_key_type_not_checked [OF h, where k = "MMDB_DATA_TYPE_BOOLEAN True 0"] by simp
  have d: "utf8_decode (take (data_size (MMDB_DATA_TYPE_UTF8_STRING [0xFF])) [0xFF]) = None"
    by (simp add: utf8_lead_def)
  have i: "fst (from_entry_data_list
            (MMDB_DATA_TYPE_MAP 2 # pairs ?kvs @ MMDB_DATA_TYPE_UTF8_STRING [0xFF]
               # [MMDB_DATA_TYPE_UINT16 2 1]))
           = Raise PyExc_UnicodeDecodeError"
    using from_map_key_type_not_checked [OF h, where map_size = 2
        and k = "MMDB_DATA_TYPE_UTF8_STRING [0xFF]" and s = "[0xFF]"
        and rest = "[MMDB_DATA_TYPE_UINT16 2 1]"] d
    by simp
  have r0: "PyUnicode_FromStringAndSize (utf8_string (MMDB_DATA_TYPE_UINT16 0 0))
        (data_size (MMDB_DATA_TYPE_UINT16 0 0)) = Return []"
    by (simp add: PyUnicode_FromStringAndSize_def)
  have v7: "from_entry_data_list [MMDB_DATA_TYPE_UINT16 7 1]
       = (Return (PyLong 7), [MMDB_DATA_TYPE_UINT16 7 1])"
    by (simp add: from_entry_data_list.simps PyLong_FromLong_def)
  have a: "from_entry_data_list
            (MMDB_DATA_TYPE_MAP 2 # pairs ?kvs @ MMDB_DATA_TYPE_UINT16 0 0 # [MMDB_DATA_TYPE_UINT16 7 1])
           = from_map 2 (Suc (length ?kvs)) (PyDict_SetItem (dict_of (entries ?kvs)) [] (PyLong 7))
               [MMDB_DATA_TYPE_UINT16 7 1]"
    using from_map_key_type_not_checked [OF h, where map_size = 2
        and k = "MMDB_DATA_TYPE_UINT16 0 0" and key = "[]" and v = "PyLong 7"
        and rest = "[MMDB_DATA_TYPE_UINT16 7 1]" and rest' = "[MMDB_DATA_TYPE_UINT16 7 1]"] r0 v7
    by simp
  have a': "fst (from_entry_data_list
            (MMDB_DATA_TYPE_MAP 2 # pairs ?kvs @ MMDB_DATA_TYPE_UINT16 0 0 # [MMDB_DATA_TYPE_UINT16 7 1]))
           = Return (PyDict [([97], PyLong 1), ([], PyLong 7)])"
    unfolding a by (simp add: e from_map.simps)
  show ?thesis
    using b w w0 r s z d i r0 v7 a'
    by (simp add: pairs_def k k0 is_container_def is_Return_def from_entry_data_list.simps)
qed

subsection \<open>Failures\<close>

lemma calls_failure:
  assumes "calls a b" and "\<not> is_Return (outcome_of b)"
  shows "outcome_of a = outcome_of b"
  using assms
proof (cases rule: calls.cases)
  case (enter_map map_size r)
  then show ?thesis by (simp add: from_entry_data_list.simps)
next
  case (enter_array array_size r)
  then show ?thesis by (simp add: from_entry_data_list.simps)
next
  case (map_value i map_size k key py_obj x value_node)
  then show ?thesis
    using assms(2) from_map_fail [of i map_size k key value_node
        "fst (from_entry_data_list value_node)" "snd (from_entry_data_list value_node)" py_obj x]
    by simp
next
  case (map_next i map_size k key value_node v rest py_obj x)
  then show ?thesis by (simp add: from_map_step)
next
  case (array_value i array_size py_obj x value_node)
  then show ?thesis
    using assms(2) from_array_fail [of i array_size value_node
        "fst (from_entry_data_list value_node)" "snd (from_entry_data_list value_node)" py_obj x]
    by simp
next
  case (array_next i array_size value_node v rest py_obj x)
  then show ?thesis by (simp add: from_array_step)
qed

text \<open>
  C8. When a call made while decoding a node list, at any depth inside maps and arrays,
  does not return a value, the decoding of the whole list ends with the outcome of
  that call: it returns no value, so no partly filled dictionary or list reaches the
  caller.
\<close>

theorem decode_failure_propagates:
  assumes "calls\<^sup>*\<^sup>* (Call_from_entry_data_list entry_data_list) inner"
    and "\<not> is_Return (outcome_of inner)"
  shows "fst (from_entry_data_list entry_data_list) = outcome_of inner
       \<and> (\<forall>value. fst (from_entry_data_list entry_data_list) \<noteq> Return value)"
proof -
  have "outcome_of a = outcome_of inner" if "calls\<^sup>*\<^sup>* a inner" for a
    using that
  proof (induction rule: converse_rtranclp_induct)
    case base
    show ?case by simp
  next
    case (step a b)
    then show ?case using calls_failure [of a b] assms(2) by simp
  qed
  from this [OF assms(1)] show ?thesis
    using assms(2) by (auto simp: is_Return_def)
qed

text \<open>
  A node of an unhandled type as the second element of an array that is the value of
  a map entry.
\<close>

theorem decode_failure_propagates_witness:
  "calls\<^sup>*\<^sup>* (Call_from_entry_data_list example_nested)
       (Call_from_entry_data_list [MMDB_DATA_TYPE_unhandled 13 0])
   \<and> \<not> is_Return (outcome_of (Call_from_entry_data_list [MMDB_DATA_TYPE_unhandled 13 0]))
   \<and> fst (from_entry_data_list example_nested)
       = Raise (MaxMindDB_error ''Invalid data type arguments: 13'')"
proof -
  let ?arr = "[MMDB_DATA_TYPE_ARRAY 2, MMDB_DATA_TYPE_UINT16 1 1, MMDB_DATA_TYPE_unhandled 13 0]"
  have k: "key_text (MMDB_DATA_TYPE_UTF8_STRING [0x61]) = Some [97]"
    by (simp add: key_text_def PyUnicode_FromStringAndSize_def utf8_lead_def)
  have one: "from_entry_data_list [MMDB_DATA_TYPE_UINT16 1 1, MMDB_DATA_TYPE_unhandled 13 0]
               = (Return (PyLong 1), [MMDB_DATA_TYPE_UINT16 1 1, MMDB_DATA_TYPE_unhandled 13 0])"
    by (simp add: from_entry_data_list.simps PyLong_FromLong_def)
  have 1: "calls (Call_from_entry_data_list example_nested) (Call_from_map 1 0 [] example_nested)"
    unfolding example_nested_def by (rule calls.enter_map)
  have 2: "calls (Call_from_map 1 0 [] example_nested) (Call_from_entry_data_list ?arr)"
    unfolding example_nested_def by (rule calls.map_value [OF _ k]) simp
  have 3: "calls (Call_from_entry_data_list ?arr) (Call_from_array 2 0 [] ?arr)"
    by (rule calls.enter_array)
  have 4: "calls (Call_from_array 2 0 [] ?arr)
             (Call_from_array 2 (Suc 0) ([] @ [PyLong 1])
                [MMDB_DATA_TYPE_UINT16 1 1, MMDB_DATA_TYPE_unhandled 13 0])"
    by (rule calls.array_next [OF _ one]) simp
  have 5: "calls (Call_from_array 2 (Suc 0) ([] @ [PyLong 1])
                [MMDB_DATA_TYPE_UINT16 1 1, MMDB_DATA_TYPE_unhandled 13 0])
             (Call_from_entry_data_list [MMDB_DATA_TYPE_unhandled 13 0])"
    by (rule calls.array_value) simp
  have path: "calls\<^sup>*\<^sup>* (Call_from_entry_data_list example_nested)
                 (Call_from_entry_data_list [MMDB_DATA_TYPE_unhandled 13 0])"
    using 1 2 3 4 5 by (meson rtranclp.rtrancl_into_rtrancl rtranclp.rtrancl_refl)
  have out: "outcome_of (Call_from_entry_data_list [MMDB_DATA_TYPE_unhandled 13 0])
               = Raise (MaxMindDB_error ''Invalid data type arguments: 13'')"
    by (simp add: from_entry_data_list.simps format_d_def dec_digits.simps)
  then have fail: "\<not> is_Return (outcome_of (Call_from_entry_data_list [MMDB_DATA_TYPE_unhandled 13 0]))"
    by (simp add: is_Return_def)
  show ?thesis
    using path fail decode_failure_propagates [OF path fail] out by simp
qed

subsection \<open>Duplicate keys\<close>

lemma keys_PyDict_SetItem:
  "map fst (PyDict_SetItem d k v) = (if k \<in> set (map fst d) then map fst d else map fst d @ [k])"
  by (induction d k v rule: PyDict_SetItem.induct) auto

lemma map_of_PyDict_SetItem: "map_of (PyDict_SetItem d k v) = (map_of d)(k \<mapsto> v)"
  by (induction d k v rule: PyDict_SetItem.induct) auto

lemma distinct_PyDict_SetItem:
  "distinct (map fst d) \<Longrightarrow> distinct (map fst (PyDict_SetItem d k v))"
  by (simp add: keys_PyDict_SetItem)

lemma distinct_insert_all:
  "distinct (map fst d) \<Longrightarrow>
   distinct (map fst (foldl (\<lambda>d kv. PyDict_SetItem d (fst kv) (snd kv)) d kvs))"
  by (induction kvs arbitrary: d) (simp_all add: distinct_PyDict_SetItem)

lemma keys_insert_all:
  "map fst (foldl (\<lambda>d kv. PyDict_SetItem d (fst kv) (snd kv)) d kvs)
     = map fst d @ filter (\<lambda>k. k \<notin> set (map fst d)) (first_occurrences (map fst kvs))"
proof (induction kvs arbitrary: d)
  case Nil
  show ?case by simp
next
  case (Cons kv kvs)
  let ?d = "PyDict_SetItem d (fst kv) (snd kv)"
  let ?rest = "first_occurrences (map fst kvs)"
  have ih: "map fst (foldl (\<lambda>d kv. PyDict_SetItem d (fst kv) (snd kv)) ?d kvs)
              = map fst ?d @ filter (\<lambda>k. k \<notin> set (map fst ?d)) ?rest"
    by (rule Cons.IH)
  show ?case
  proof (cases "fst kv \<in> set (map fst d)")
    case True
    then have k: "map fst ?d = map fst d" by (simp add: keys_PyDict_SetItem)
    have "filter (\<lambda>k. k \<notin> set (map fst d)) (removeAll (fst kv) ?rest)
            = filter (\<lambda>k. k \<notin> set (map fst d)) ?rest"
      using True by (auto simp: removeAll_filter_not_eq intro: filter_cong)
    with True show ?thesis unfolding foldl_Cons ih k by simp
  next
    case False
    then have k: "map fst ?d = map fst d @ [fst kv]" by (simp add: keys_PyDict_SetItem)
    have "filter (\<lambda>k. k \<notin> set (map fst d @ [fst kv])) ?rest
            = filter (\<lambda>k. k \<notin> set (map fst d)) (removeAll (fst kv) ?rest)"
      by (auto simp: removeAll_filter_not_eq intro: filter_cong)
    with False show ?thesis unfolding foldl_Cons ih k by simp
  qed
qed

lemma map_of_insert_all:
  "map_of (foldl (\<lambda>d kv. PyDict_SetItem d (fst kv) (snd kv)) d kvs) = map_of (rev kvs @ d)"
proof (induction kvs arbitrary: d)
  case Nil
  show ?case by simp
next
  case (Cons kv kvs)
  show ?case
    by (cases kv) (simp add: Cons.IH map_of_PyDict_SetItem map_add_def fun_eq_iff split: option.split)
qed

lemma dict_of_properties:
  "distinct (map fst (dict_of kvs))
   \<and> map fst (dict_of kvs) = first_occurrences (map fst kvs)
   \<and> map_of (dict_of kvs) = map_of (rev kvs)"
  using keys_insert_all [of "[]" kvs] map_of_insert_all [of "[]" kvs]
    distinct_insert_all [of "[]" kvs]
  by (simp add: dict_of_def)

text \<open>
  C10. A decodable map, with or without duplicate keys, decodes to a dictionary whose
  keys are distinct and stand in the order of their first occurrence, each bound to
  the value decoded at its last occurrence (\<open>map_of\<close> of the reversed list of pairs
  finds the last pair with the key).
\<close>

theorem from_map_duplicate_keys:
  assumes "decodable (Map_tree kvs)"
  shows "\<exists>d. fst (from_entry_data_list (flatten (Map_tree kvs) @ rest)) = Return (PyDict d)
           \<and> distinct (map fst d)
           \<and> map fst d = first_occurrences (map (\<lambda>kv. key_of (fst kv)) kvs)
           \<and> map_of d = map_of (rev (map (\<lambda>kv. (key_of (fst kv), value_of (snd kv))) kvs))
           \<and> (\<forall>kv \<in> set kvs. key_text (fst kv) = Some (key_of (fst kv))
                  \<and> fst (from_entry_data_list (flatten (snd kv))) = Return (value_of (snd kv)))"
proof -
  let ?d = "dict_of (entries kvs)"
  have r: "fst (from_entry_data_list (flatten (Map_tree kvs) @ rest)) = Return (PyDict ?d)"
    using from_entry_data_list_flatten [OF assms, of rest] by (simp add: entries_def)
  have k: "map fst (entries kvs) = map (\<lambda>kv. key_of (fst kv)) kvs"
    by (simp add: entries_def comp_def)
  have p1: "distinct (map fst ?d)"
    and p2: "map fst ?d = first_occurrences (map fst (entries kvs))"
    and p3: "map_of ?d = map_of (rev (entries kvs))"
    using dict_of_properties [of "entries kvs"] by blast+
  have each: "key_text (fst kv) = Some (key_of (fst kv))
      \<and> fst (from_entry_data_list (flatten (snd kv))) = Return (value_of (snd kv))"
    if "kv \<in> set kvs" for kv
  proof -
    have "decodable (snd kv)" "key_text (fst kv) \<noteq> None"
      using that assms by (auto simp: list_all_iff)
    then show ?thesis
      using from_entry_data_list_flatten [of "snd kv" "[]"] by (auto simp: key_of_def)
  qed
  show ?thesis
  proof (intro exI [of _ ?d] conjI ballI)
    show "fst (from_entry_data_list (flatten (Map_tree kvs) @ rest)) = Return (PyDict ?d)"
      by (rule r)
    show "distinct (map fst ?d)" by (rule p1)
    show "map fst ?d = first_occurrences (map (\<lambda>kv. key_of (fst kv)) kvs)"
      using p2 unfolding k .
    show "map_of ?d = map_of (rev (map (\<lambda>kv. (key_of (fst kv), value_of (snd kv))) kvs))"
      using p3 unfolding entries_def .
  next
    fix kv assume "kv \<in> set kvs"
    then show "key_text (fst kv) = Some (key_of (fst kv))" using each by blast
  next
    fix kv assume "kv \<in> set kvs"
    then show "fst (from_entry_data_list (flatten (snd kv))) = Return (value_of (snd kv))"
      using each by blast
  qed
qed

text \<open>The map with the pairs \<open>a: 1\<close>, \<open>b: 2\<close>, \<open>a: 3\<close> decodes to \<open>a: 3\<close>, \<open>b: 2\<close>.\<close>

theorem from_map_duplicate_keys_witness:
  "decodable (Map_tree example_map)
   \<and> (\<exists>d. fst (from_entry_data_list (flatten (Map_tree example_map) @ [])) = Return (PyDict d)
         \<and> map fst d = [[97], [98]]
         \<and> map_of d [97] = Some (PyLong 3) \<and> map_of d [98] = Some (PyLong 2))"
proof -
  have d: "decodable (Map_tree example_map)"
    by (simp add: example_map_def is_container_def is_Return_def from_entry_data_list.simps
        key_text_def PyUnicode_FromStringAndSize_def utf8_lead_def)
  show ?thesis
    using d from_map_duplicate_keys [OF d, of "[]"]
    by (auto simp: example_map_def key_of_def key_text_def PyUnicode_FromStringAndSize_def
        utf8_lead_def from_entry_data_list.simps PyLong_FromLong_def)
qed

end
